theory Spec2Isabelle
  imports Complex_Main "HOL-Library.AList"
begin

section \<open>Python values used by the music subsystem\<close>

text \<open>
  A Python \<open>str\<close> is modelled as a \<open>string\<close>: a list of characters whose codes are the
  code points 0 to 255. On that range the predicates below are Python's own:
  \<open>str.isspace\<close> holds of the codes 9 to 13, 28 to 32, 133 and 160, and the regular
  expression class \<open>\d\<close> holds of the ten ASCII digits only.
\<close>

definition py_isspace :: "char \<Rightarrow> bool" where
  "py_isspace c =
     (let n = (of_char c :: nat)
      in (9 \<le> n \<and> n \<le> 13) \<or> (28 \<le> n \<and> n \<le> 32) \<or> n = 133 \<or> n = 160)"

text \<open>\<open>s.strip()\<close>\<close>

definition strip :: "string \<Rightarrow> string" where
  "strip s = rev (dropWhile py_isspace (rev (dropWhile py_isspace s)))"

text \<open>\<open>s.replace(c, d)\<close> for one-character \<open>c\<close> and \<open>d\<close>\<close>

definition replace_char :: "char \<Rightarrow> char \<Rightarrow> string \<Rightarrow> string" where
  "replace_char c d s = map (\<lambda>x. if x = c then d else x) s"

text \<open>\<open>s.startswith(p)\<close>\<close>

fun startswith :: "string \<Rightarrow> string \<Rightarrow> bool" where
  "startswith s [] = True"
| "startswith [] (p # ps) = False"
| "startswith (c # cs) (p # ps) = (c = p \<and> startswith cs ps)"

text \<open>\<open>m or fallback\<close> for an optional string: \<open>None\<close> and the empty string are false.\<close>

definition or_str :: "string option \<Rightarrow> string \<Rightarrow> string" where
  "or_str m fallback =
     (case m of None \<Rightarrow> fallback | Some s \<Rightarrow> if s = [] then fallback else s)"

text \<open>\<open>needle in s\<close> for two strings\<close>

fun contains :: "string \<Rightarrow> string \<Rightarrow> bool" where
  "contains [] needle = (needle = [])"
| "contains (c # cs) needle = (startswith (c # cs) needle \<or> contains cs needle)"

section \<open>youtube\_client.py: \<open>YouTubeClient._sanitize_filename\<close>\<close>

text \<open>The characters of \<open>invalid_chars = '<>:"/\\|?*'\<close>, in the order of the literal.\<close>

definition invalid_chars :: string where
  "invalid_chars =
     [CHR ''<'', CHR ''>'', CHR '':'', CHR 0x22, CHR ''/'', CHR 0x5C, CHR ''|'', CHR ''?'', CHR ''*'']"

text \<open>
  The loop \<open>for char in invalid_chars: filename = filename.replace(char, '_')\<close>.
\<close>

fun replace_invalid :: "string \<Rightarrow> string \<Rightarrow> string" where
  "replace_invalid [] filename = filename"
| "replace_invalid (char # chars) filename =
     replace_invalid chars (replace_char char CHR ''_'' filename)"

definition sanitize_filename :: "string \<Rightarrow> string" where
  "sanitize_filename filename0 =
     (let filename = replace_invalid invalid_chars filename0;
          filename = take 100 (strip filename)
      in if filename = [] then ''audio'' else filename)"

section \<open>Exceptions\<close>

text \<open>
  A raised exception is a value. \<open>CancelledError\<close> derives from \<open>BaseException\<close> only, so
  a handler \<open>except Exception\<close> lets it pass; every other constructor is an instance of
  \<open>Exception\<close>. The argument is the text of \<open>str(e)\<close>.
\<close>

datatype exn =
    ValueError string
  | OverflowError string
  | ClientError string
  | PytubeFixError string
  | OtherException string
  | CancelledError

fun is_Exception :: "exn \<Rightarrow> bool" where
  "is_Exception CancelledError = False"
| "is_Exception _ = True"

fun exn_str :: "exn \<Rightarrow> string" where
  "exn_str (ValueError m) = m"
| "exn_str (OverflowError m) = m"
| "exn_str (ClientError m) = m"
| "exn_str (PytubeFixError m) = m"
| "exn_str (OtherException m) = m"
| "exn_str CancelledError = []"

text \<open>Sequencing of steps that may raise: the first exception ends the computation.\<close>

definition bnd :: "exn + 'a \<Rightarrow> ('a \<Rightarrow> exn + 'b) \<Rightarrow> exn + 'b" where
  "bnd m f = (case m of Inl e \<Rightarrow> Inl e | Inr v \<Rightarrow> f v)"

text \<open>\<open>try: body  except ValueError as e: handler(e)\<close>\<close>

definition except_ValueError :: "exn + 'a \<Rightarrow> (string \<Rightarrow> exn + 'a) \<Rightarrow> exn + 'a" where
  "except_ValueError body handler =
     (case body of Inl (ValueError m) \<Rightarrow> handler m | other \<Rightarrow> other)"

text \<open>\<open>try: body  except Exception as e: handler(e)\<close>\<close>

definition except_Exception :: "exn + 'a \<Rightarrow> (exn \<Rightarrow> exn + 'a) \<Rightarrow> exn + 'a" where
  "except_Exception body handler =
     (case body of Inl e \<Rightarrow> (if is_Exception e then handler e else Inl e) | other \<Rightarrow> other)"

section \<open>Integers, decimal text and floats\<close>

definition is_digit :: "char \<Rightarrow> bool" where
  "is_digit c = (48 \<le> (of_char c :: nat) \<and> (of_char c :: nat) \<le> 57)"

definition digit_val :: "char \<Rightarrow> int" where
  "digit_val c = int (of_char c) - 48"

definition digit_char :: "nat \<Rightarrow> char" where
  "digit_char d = char_of (48 + d)"

text \<open>\<open>str(n)\<close> for a natural number, and for an integer.\<close>

fun str_nat :: "nat \<Rightarrow> string" where
  "str_nat n = (if n < 10 then [digit_char n] else str_nat (n div 10) @ [digit_char (n mod 10)])"

definition str_int :: "int \<Rightarrow> string" where
  "str_int i = (if i < 0 then CHR ''-'' # str_nat (nat (- i)) else str_nat (nat i))"

text \<open>The format specification \<open>{n:02d}\<close>: zeros on the left up to two characters.\<close>

definition fmt_02d :: "int \<Rightarrow> string" where
  "fmt_02d n = (let s = str_int n in if length s < 2 then CHR ''0'' # s else s)"

text \<open>
  \<open>int(s)\<close> on a string of decimal digits, the only strings the callers pass (each comes
  out of a \<open>\d\<close> group). CPython refuses more than 4300 digits (the default of
  \<open>sys.set_int_max_str_digits\<close>) with a \<open>ValueError\<close>.
\<close>

definition int_max_str_digits :: nat where
  "int_max_str_digits = 4300"

definition dec_value :: "string \<Rightarrow> int" where
  "dec_value s = foldl (\<lambda>acc c. 10 * acc + digit_val c) 0 s"

definition py_int :: "string \<Rightarrow> exn + int" where
  "py_int s =
     (if s = [] \<or> \<not> list_all is_digit s then
        Inl (ValueError (''invalid literal for int() with base 10: '' @ s))
      else if int_max_str_digits < length s then
        Inl (ValueError ''Exceeds the limit (4300 digits) for integer string conversion'')
      else Inr (dec_value s))"

text \<open>
  \<open>float(n)\<close> for an integer: the nearest binary64 value, ties to the even significand,
  and \<open>OverflowError\<close> when that value would reach \<open>2 ^ 1024\<close>. Floats are modelled by
  the real numbers they denote.
\<close>

function bit_length :: "int \<Rightarrow> nat" where
  "bit_length n = (if n \<le> 0 then 0 else Suc (bit_length (n div 2)))"
  by pat_completeness auto
termination
  by (relation "measure nat") auto

declare bit_length.simps [simp del]

definition round_to_53_bits :: "int \<Rightarrow> int" where
  "round_to_53_bits a =
     (if a < 2 ^ 53 then a
      else let e = bit_length a - 53;
               q = a div 2 ^ e;
               r = a mod 2 ^ e;
               q' = (if 2 ^ e < 2 * r \<or> (2 * r = 2 ^ e \<and> odd q) then q + 1 else q)
           in q' * 2 ^ e)"

definition py_float :: "int \<Rightarrow> exn + real" where
  "py_float n =
     (let v = round_to_53_bits \<bar>n\<bar>
      in if 2 ^ 1024 \<le> v then Inl (OverflowError ''int too large to convert to float'')
         else Inr (if n < 0 then - of_int v else of_int v))"

text \<open>\<open>x // m\<close> and \<open>x % m\<close> on floats, for a positive \<open>m\<close>.\<close>

definition py_floordiv :: "real \<Rightarrow> real \<Rightarrow> real" where
  "py_floordiv x m = of_int \<lfloor>x / m\<rfloor>"

definition py_mod :: "real \<Rightarrow> real \<Rightarrow> real" where
  "py_mod x m = x - m * of_int \<lfloor>x / m\<rfloor>"

section \<open>seek\_manager.py\<close>

record SeekResult =
  success :: bool
  target_position :: "real option"
  error_str :: "string option"

text \<open>\<open>SeekResult(False, error_str=m)\<close> and \<open>SeekResult(True, target_position=p)\<close>\<close>

definition seek_error :: "string \<Rightarrow> SeekResult" where
  "seek_error m = \<lparr>success = False, target_position = None, error_str = Some m\<rparr>"

definition seek_ok :: "real \<Rightarrow> SeekResult" where
  "seek_ok p = \<lparr>success = True, target_position = Some p, error_str = None\<rparr>"

subsection \<open>The three patterns\<close>

text \<open>\<open>s.split(c)\<close>\<close>

fun split_on :: "char \<Rightarrow> string \<Rightarrow> string list" where
  "split_on c [] = [[]]"
| "split_on c (x # xs) =
     (if x = c then [] # split_on c xs
      else (case split_on c xs of w # ws \<Rightarrow> (x # w) # ws | [] \<Rightarrow> [[x]]))"

text \<open>
  \<open>$\<close> matches at the end of the string and also before a newline that ends it. No
  pattern below can consume a newline, so a pattern ending in \<open>$\<close> matches \<open>s\<close> exactly
  when its body matches the whole of \<open>s\<close> without such a newline.
\<close>

definition before_dollar :: "string \<Rightarrow> string" where
  "before_dollar s = (if s \<noteq> [] \<and> last s = CHR 0x0A then butlast s else s)"

text \<open>\<open>\d{1,2}\<close>, \<open>\d{2}\<close> and \<open>\d+\<close> against a whole string\<close>

definition digits_1_2 :: "string \<Rightarrow> bool" where
  "digits_1_2 s = (1 \<le> length s \<and> length s \<le> 2 \<and> list_all is_digit s)"

definition digits_2 :: "string \<Rightarrow> bool" where
  "digits_2 s = (length s = 2 \<and> list_all is_digit s)"

definition digits_plus :: "string \<Rightarrow> bool" where
  "digits_plus s = (1 \<le> length s \<and> list_all is_digit s)"

text \<open>
  The body \<open>(?:(\d{1,2}):)?(\d{1,2}):(\d{2})\<close> against a whole string. A digit is never a
  colon, so the string matches exactly when it splits at its colons into two or three
  fields of the right shapes, and the groups are those fields.
\<close>

definition match_hms :: "string \<Rightarrow> (string option \<times> string \<times> string) option" where
  "match_hms s =
     (case split_on CHR '':'' s of
        [m, sec] \<Rightarrow> if digits_1_2 m \<and> digits_2 sec then Some (None, m, sec) else None
      | [h, m, sec] \<Rightarrow>
          if digits_1_2 h \<and> digits_1_2 m \<and> digits_2 sec then Some (Some h, m, sec) else None
      | _ \<Rightarrow> None)"

text \<open>\<open>TIME_ABSOLUTE_PATTERN = ^(?:(\d{1,2}):)?(\d{1,2}):(\d{2})$\<close>\<close>

definition TIME_ABSOLUTE_PATTERN :: "string \<Rightarrow> (string option \<times> string \<times> string) option" where
  "TIME_ABSOLUTE_PATTERN s = match_hms (before_dollar s)"

text \<open>\<open>TIME_RELATIVE_PATTERN = ^([+-])(?:(\d{1,2}):)?(\d{1,2}):(\d{2})$\<close>\<close>

definition TIME_RELATIVE_PATTERN ::
  "string \<Rightarrow> (char \<times> string option \<times> string \<times> string) option" where
  "TIME_RELATIVE_PATTERN s =
     (case before_dollar s of
        [] \<Rightarrow> None
      | c # rest \<Rightarrow>
          if c = CHR ''+'' \<or> c = CHR ''-'' then
            (case match_hms rest of
               Some (h, m, sec) \<Rightarrow> Some (c, h, m, sec)
             | None \<Rightarrow> None)
          else None)"

text \<open>\<open>TIME_SECONDS_ONLY_PATTERN = ^([+-])?(\d+)$\<close>\<close>

definition TIME_SECONDS_ONLY_PATTERN :: "string \<Rightarrow> (char option \<times> string) option" where
  "TIME_SECONDS_ONLY_PATTERN s =
     (case before_dollar s of
        [] \<Rightarrow> None
      | c # rest \<Rightarrow>
          if c = CHR ''+'' \<or> c = CHR ''-'' then
            (if digits_plus rest then Some (Some c, rest) else None)
          else if digits_plus (c # rest) then Some (None, c # rest)
          else None)"

subsection \<open>\<open>SeekManager.format_time\<close>\<close>

text \<open>
  The quotients and remainders are those of the real numbers; where the float operations
  of the source round, the digits printed can differ. Only the text of error messages
  depends on it.
\<close>

definition format_time_nonneg :: "real \<Rightarrow> string" where
  "format_time_nonneg seconds =
     (let hours = \<lfloor>py_floordiv seconds 3600\<rfloor>;
          minutes = \<lfloor>py_floordiv (py_mod seconds 3600) 60\<rfloor>;
          secs = \<lfloor>py_mod seconds 60\<rfloor>
      in if 0 < hours then fmt_02d hours @ '':'' @ fmt_02d minutes @ '':'' @ fmt_02d secs
         else fmt_02d minutes @ '':'' @ fmt_02d secs)"

text \<open>
  A negative argument is formatted as \<open>-\<close> followed by the format of its negation, which
  is positive and so takes the other branch of the recursive call.
\<close>

definition format_time :: "real \<Rightarrow> string" where
  "format_time seconds =
     (if seconds < 0 then ''-'' @ format_time_nonneg (- seconds)
      else format_time_nonneg seconds)"

subsection \<open>\<open>SeekManager._parse_time_components\<close>\<close>

definition parse_time_components ::
  "char option \<Rightarrow> string option \<Rightarrow> string \<Rightarrow> string \<Rightarrow> bool \<Rightarrow> exn + SeekResult" where
  "parse_time_components sign hours minutes seconds is_relative =
     except_ValueError
       (bnd (case hours of None \<Rightarrow> Inr 0 | Some hs \<Rightarrow> if hs = [] then Inr 0 else py_int hs) (\<lambda>h.
        bnd (py_int minutes) (\<lambda>m.
        bnd (py_int seconds) (\<lambda>s.
          if 60 \<le> m then Inr (seek_error (''Minutes must be less than 60: '' @ str_int m))
          else if 60 \<le> s then Inr (seek_error (''Seconds must be less than 60: '' @ str_int s))
          else if h < 0 \<or> m < 0 \<or> s < 0 then
            Inr (seek_error ''Time components cannot be negative'')
          else
            (let total_seconds = h * 3600 + m * 60 + s;
                 total_seconds =
                   (if is_relative \<and> sign = Some CHR ''-'' then - total_seconds
                    else total_seconds)
             in bnd (py_float total_seconds) (\<lambda>p. Inr (seek_ok p)))))))
       (\<lambda>e. Inr (seek_error (''Invalid time components: '' @ e)))"

subsection \<open>\<open>SeekManager.parse_seek_time\<close>\<close>

definition parse_seek_time :: "string \<Rightarrow> exn + SeekResult" where
  "parse_seek_time time_str0 =
     (let time_str = strip time_str0
      in if time_str = [] then Inr (seek_error ''Empty time string'')
         else
           (case TIME_RELATIVE_PATTERN time_str of
              Some (sign, hours, minutes, seconds) \<Rightarrow>
                parse_time_components (Some sign) hours minutes seconds True
            | None \<Rightarrow>
           (case TIME_ABSOLUTE_PATTERN time_str of
              Some (hours, minutes, seconds) \<Rightarrow>
                parse_time_components None hours minutes seconds False
            | None \<Rightarrow>
           (case TIME_SECONDS_ONLY_PATTERN time_str of
              Some (sign, seconds_str) \<Rightarrow>
                except_ValueError
                  (bnd (py_int seconds_str) (\<lambda>seconds.
                     (let seconds = (if sign = Some CHR ''-'' then - seconds else seconds)
                      in bnd (py_float seconds) (\<lambda>p. Inr (seek_ok p)))))
                  (\<lambda>e. Inr (seek_error (''Invalid seconds value: '' @ seconds_str)))
            | None \<Rightarrow> Inr (seek_error (''Invalid time format: '' @ time_str))))))"

subsection \<open>\<open>SeekManager.validate_seek_position\<close> and \<open>is_relative_seek\<close>\<close>

definition validate_seek_position :: "real \<Rightarrow> real \<Rightarrow> real \<Rightarrow> bool \<Rightarrow> SeekResult" where
  "validate_seek_position target_seconds current_position song_duration is_relative =
     (let absolute_position =
            (if is_relative then current_position + target_seconds else target_seconds)
      in if absolute_position < 0 then
           seek_error (''Cannot seek to negative position: '' @ format_time absolute_position)
         else if song_duration < absolute_position then
           seek_error (''Cannot seek beyond song duration: '' @ format_time absolute_position
                       @ '' > '' @ format_time song_duration)
         else seek_ok absolute_position)"

definition is_relative_seek :: "string \<Rightarrow> bool" where
  "is_relative_seek time_str0 =
     (let time_str = strip time_str0
      in TIME_RELATIVE_PATTERN time_str \<noteq> None
         \<or> (TIME_SECONDS_ONLY_PATTERN time_str \<noteq> None
            \<and> (startswith time_str ''+'' \<or> startswith time_str ''-'')))"

section \<open>music\_player.py: the state of a \<open>MusicPlayer\<close>\<close>

text \<open>
  A Python \<open>dict\<close> is an association list with the operations of \<open>dict\<close>:
  \<open>k in d\<close>, \<open>d.get(k)\<close>, \<open>d[k] = v\<close> (replace the entry of \<open>k\<close>, or add one) and
  \<open>del d[k]\<close>. That a key has at most one entry is then a property to prove.
\<close>

definition dict_in :: "'k \<Rightarrow> ('k \<times> 'v) list \<Rightarrow> bool" where
  "dict_in k d = (k \<in> set (map fst d))"

definition dict_get :: "('k \<times> 'v) list \<Rightarrow> 'k \<Rightarrow> 'v option" where
  "dict_get d k = map_of d k"

definition dict_set :: "'k \<Rightarrow> 'v \<Rightarrow> ('k \<times> 'v) list \<Rightarrow> ('k \<times> 'v) list" where
  "dict_set k v d = AList.update k v d"

definition dict_del :: "'k \<Rightarrow> ('k \<times> 'v) list \<Rightarrow> ('k \<times> 'v) list" where
  "dict_del k d = AList.delete k d"

text \<open>The number of entries a dictionary holds for a key.\<close>

definition entries :: "'k \<Rightarrow> ('k \<times> 'v) list \<Rightarrow> nat" where
  "entries k d = length (filter (\<lambda>e. fst e = k) d)"

text \<open>
  The coroutines the player hands to \<open>asyncio.create_task\<close>. A task handle is the number
  of the call that created it.
\<close>

datatype coroutine =
    PlaybackLoop int
  | InactivityTimerTask int int

text \<open>
  The fields of the player, without the leading underscore of the source, followed by
  what the player has done to the world so far: the tasks it created, the handles on which
  it called \<open>cancel()\<close>, the paths it passed to \<open>youtube_client.cleanup_file\<close> and
  the guilds it passed to \<open>voice_manager.disconnect_from_guild\<close>. Of the configuration
  the player reads one value, the auto-disconnect timeout; \<open>config\<close> is \<open>None\<close> when the
  player was built without a configuration, and that value otherwise.
  The type \<open>'q\<close> is the state of a \<open>QueueManager\<close>, whose module is not part of the
  sources at hand.
\<close>

record 'q MusicPlayer =
  config :: "int option"
  queue_managers :: "(int \<times> 'q) list"
  playback_tasks :: "(int \<times> nat) list"
  current_audio_files :: "(int \<times> string) list"
  playback_start_times :: "(int \<times> real) list"
  playback_paused_times :: "(int \<times> real) list"
  total_paused_duration :: "(int \<times> real) list"
  inactivity_timers :: "(int \<times> nat) list"
  last_activity_times :: "(int \<times> real) list"
  tasks_created :: "coroutine list"
  tasks_cancelled :: "nat list"
  files_cleaned :: "string list"
  voice_disconnects :: "int list"

text \<open>\<open>MusicPlayer.__init__\<close>\<close>

definition init_player :: "int option \<Rightarrow> 'q MusicPlayer" where
  "init_player cfg =
     \<lparr>config = cfg,
      queue_managers = [], playback_tasks = [], current_audio_files = [],
      playback_start_times = [], playback_paused_times = [], total_paused_duration = [],
      inactivity_timers = [], last_activity_times = [],
      tasks_created = [], tasks_cancelled = [], files_cleaned = [], voice_disconnects = []\<rparr>"

text \<open>\<open>asyncio.create_task(c)\<close>: the new handle and the player after the call.\<close>

definition create_task :: "coroutine \<Rightarrow> 'q MusicPlayer \<Rightarrow> nat \<times> 'q MusicPlayer" where
  "create_task c p = (length (tasks_created p), p\<lparr>tasks_created := tasks_created p @ [c]\<rparr>)"

text \<open>\<open>task.cancel()\<close>\<close>

definition cancel_task :: "nat \<Rightarrow> 'q MusicPlayer \<Rightarrow> 'q MusicPlayer" where
  "cancel_task t p = p\<lparr>tasks_cancelled := tasks_cancelled p @ [t]\<rparr>"

subsection \<open>Playback timing\<close>

text \<open>
  Every function that reads the clock takes the value of \<open>time.time()\<close> as its argument
  \<open>now\<close>.
\<close>

definition get_current_playback_position :: "'q MusicPlayer \<Rightarrow> int \<Rightarrow> real \<Rightarrow> real option" where
  "get_current_playback_position p guild_id now =
     (case dict_get (playback_start_times p) guild_id of
        None \<Rightarrow> None
      | Some start_time \<Rightarrow>
          (let current_time = now;
               elapsed = current_time - start_time;
               total_paused =
                 (case dict_get (total_paused_duration p) guild_id of
                    None \<Rightarrow> 0 | Some d \<Rightarrow> d);
               total_paused =
                 (case dict_get (playback_paused_times p) guild_id of
                    None \<Rightarrow> total_paused
                  | Some paused_at \<Rightarrow> total_paused + (current_time - paused_at))
           in Some (max 0 (elapsed - total_paused))))"

definition start_playback_timing :: "'q MusicPlayer \<Rightarrow> int \<Rightarrow> real \<Rightarrow> 'q MusicPlayer" where
  "start_playback_timing p guild_id now =
     (let p = p\<lparr>playback_start_times := dict_set guild_id now (playback_start_times p)\<rparr>;
          p = p\<lparr>total_paused_duration := dict_set guild_id 0 (total_paused_duration p)\<rparr>
      in if dict_in guild_id (playback_paused_times p)
         then p\<lparr>playback_paused_times := dict_del guild_id (playback_paused_times p)\<rparr>
         else p)"

definition pause_playback_timing :: "'q MusicPlayer \<Rightarrow> int \<Rightarrow> real \<Rightarrow> 'q MusicPlayer" where
  "pause_playback_timing p guild_id now =
     (if dict_in guild_id (playback_start_times p)
         \<and> \<not> dict_in guild_id (playback_paused_times p)
      then p\<lparr>playback_paused_times := dict_set guild_id now (playback_paused_times p)\<rparr>
      else p)"

definition resume_playback_timing :: "'q MusicPlayer \<Rightarrow> int \<Rightarrow> real \<Rightarrow> 'q MusicPlayer" where
  "resume_playback_timing p guild_id now =
     (case dict_get (playback_paused_times p) guild_id of
        None \<Rightarrow> p
      | Some pause_start \<Rightarrow>
          (let pause_duration = now - pause_start;
               so_far = (case dict_get (total_paused_duration p) guild_id of
                           None \<Rightarrow> 0 | Some d \<Rightarrow> d);
               p = p\<lparr>total_paused_duration :=
                        dict_set guild_id (so_far + pause_duration) (total_paused_duration p)\<rparr>
           in p\<lparr>playback_paused_times := dict_del guild_id (playback_paused_times p)\<rparr>))"

definition stop_playback_timing :: "'q MusicPlayer \<Rightarrow> int \<Rightarrow> 'q MusicPlayer" where
  "stop_playback_timing p guild_id =
     (let p = (if dict_in guild_id (playback_start_times p)
               then p\<lparr>playback_start_times := dict_del guild_id (playback_start_times p)\<rparr>
               else p);
          p = (if dict_in guild_id (playback_paused_times p)
               then p\<lparr>playback_paused_times := dict_del guild_id (playback_paused_times p)\<rparr>
               else p)
      in if dict_in guild_id (total_paused_duration p)
         then p\<lparr>total_paused_duration := dict_del guild_id (total_paused_duration p)\<rparr>
         else p)"

definition update_timing_after_seek ::
  "'q MusicPlayer \<Rightarrow> int \<Rightarrow> real \<Rightarrow> real \<Rightarrow> 'q MusicPlayer" where
  "update_timing_after_seek p guild_id target_seconds now =
     (let current_time = now;
          p = p\<lparr>playback_start_times :=
                   dict_set guild_id (current_time - target_seconds) (playback_start_times p)\<rparr>;
          p = p\<lparr>total_paused_duration := dict_set guild_id 0 (total_paused_duration p)\<rparr>
      in if dict_in guild_id (playback_paused_times p)
         then p\<lparr>playback_paused_times := dict_del guild_id (playback_paused_times p)\<rparr>
         else p)"

subsection \<open>The inactivity timer, the playback task and the current audio file\<close>

text \<open>\<open>_get_auto_disconnect_timeout\<close>\<close>

definition get_auto_disconnect_timeout :: "'q MusicPlayer \<Rightarrow> int" where
  "get_auto_disconnect_timeout p = (case config p of None \<Rightarrow> 300 | Some t \<Rightarrow> t)"

definition reset_inactivity_timer :: "'q MusicPlayer \<Rightarrow> int \<Rightarrow> real \<Rightarrow> 'q MusicPlayer" where
  "reset_inactivity_timer p guild_id now =
     (let p = (case dict_get (inactivity_timers p) guild_id of
                 None \<Rightarrow> p
               | Some timer \<Rightarrow>
                   (cancel_task timer p)
                     \<lparr>inactivity_timers := dict_del guild_id (inactivity_timers p)\<rparr>)
      in p\<lparr>last_activity_times := dict_set guild_id now (last_activity_times p)\<rparr>)"

definition start_inactivity_timer :: "'q MusicPlayer \<Rightarrow> int \<Rightarrow> 'q MusicPlayer" where
  "start_inactivity_timer p guild_id =
     (let p = (case dict_get (inactivity_timers p) guild_id of
                 None \<Rightarrow> p
               | Some timer \<Rightarrow> cancel_task timer p);
          timeout_seconds = get_auto_disconnect_timeout p;
          (timer_task, p) = create_task (InactivityTimerTask guild_id timeout_seconds) p
      in p\<lparr>inactivity_timers := dict_set guild_id timer_task (inactivity_timers p)\<rparr>)"

definition stop_inactivity_timer :: "'q MusicPlayer \<Rightarrow> int \<Rightarrow> 'q MusicPlayer" where
  "stop_inactivity_timer p guild_id =
     (case dict_get (inactivity_timers p) guild_id of
        None \<Rightarrow> p
      | Some timer \<Rightarrow>
          (cancel_task timer p)\<lparr>inactivity_timers := dict_del guild_id (inactivity_timers p)\<rparr>)"

text \<open>
  \<open>_cleanup_current_audio\<close>. \<open>youtube_client.cleanup_file\<close> catches what \<open>os.remove\<close>
  raises, so the call is recorded and nothing else comes of it.
\<close>

definition cleanup_current_audio :: "'q MusicPlayer \<Rightarrow> int \<Rightarrow> 'q MusicPlayer" where
  "cleanup_current_audio p guild_id =
     (case dict_get (current_audio_files p) guild_id of
        None \<Rightarrow> p
      | Some file_path \<Rightarrow>
          (let p = (if file_path \<noteq> [] \<and> \<not> startswith file_path ''http''
                    then p\<lparr>files_cleaned := files_cleaned p @ [file_path]\<rparr>
                    else p)
           in p\<lparr>current_audio_files := dict_del guild_id (current_audio_files p)\<rparr>))"

definition cleanup_guild_state :: "'q MusicPlayer \<Rightarrow> int \<Rightarrow> 'q MusicPlayer" where
  "cleanup_guild_state p guild_id =
     (let p = (case dict_get (playback_tasks p) guild_id of
                 None \<Rightarrow> p
               | Some task \<Rightarrow>
                   (cancel_task task p)\<lparr>playback_tasks := dict_del guild_id (playback_tasks p)\<rparr>);
          p = cleanup_current_audio p guild_id;
          p = stop_playback_timing p guild_id;
          p = stop_inactivity_timer p guild_id
      in if dict_in guild_id (last_activity_times p)
         then p\<lparr>last_activity_times := dict_del guild_id (last_activity_times p)\<rparr>
         else p)"

definition start_playback :: "'q MusicPlayer \<Rightarrow> int \<Rightarrow> real \<Rightarrow> 'q MusicPlayer" where
  "start_playback p guild_id now =
     (if dict_in guild_id (playback_tasks p) then p
      else
        (let p = reset_inactivity_timer p guild_id now;
             (task, p) = create_task (PlaybackLoop guild_id) p
         in p\<lparr>playback_tasks := dict_set guild_id task (playback_tasks p)\<rparr>))"

subsection \<open>\<open>_playback_loop\<close>, between its suspension points\<close>

text \<open>
  The loop runs as one task and gives up control only at an \<open>await\<close>. Each function below
  is one stretch of it that runs without interruption. The \<open>finally\<close> clause, which also
  runs after a cancellation or an exception:
\<close>

definition playback_loop_finally :: "'q MusicPlayer \<Rightarrow> int \<Rightarrow> 'q MusicPlayer" where
  "playback_loop_finally p guild_id =
     (let p = (if dict_in guild_id (playback_tasks p)
               then p\<lparr>playback_tasks := dict_del guild_id (playback_tasks p)\<rparr>
               else p)
      in cleanup_current_audio p guild_id)"

text \<open>\<open>get_next_song()\<close> returned no song: the timer is started and the loop is left.\<close>

definition playback_loop_no_more_songs :: "'q MusicPlayer \<Rightarrow> int \<Rightarrow> 'q MusicPlayer" where
  "playback_loop_no_more_songs p guild_id =
     playback_loop_finally (start_inactivity_timer p guild_id) guild_id"

text \<open>
  The download or the validation has come back with \<open>audio_file_path\<close> (\<open>None\<close> when it
  failed) and \<open>play_audio\<close> has answered \<open>played\<close> (the \<open>success\<close> of the source): the path is stored at line 743, and
  either the timing starts or, when playback did not start, the file is cleaned up.
\<close>

definition playback_loop_song_ready ::
  "'q MusicPlayer \<Rightarrow> int \<Rightarrow> string option \<Rightarrow> bool \<Rightarrow> real \<Rightarrow> 'q MusicPlayer" where
  "playback_loop_song_ready p guild_id audio_file_path played now =
     (case audio_file_path of
        None \<Rightarrow> p
      | Some path \<Rightarrow>
          if path = [] then p
          else
            (let p = p\<lparr>current_audio_files := dict_set guild_id path (current_audio_files p)\<rparr>
             in if \<not> played then cleanup_current_audio p guild_id
                else start_playback_timing p guild_id now))"

text \<open>\<open>playback_finished.wait()\<close> has returned.\<close>

definition playback_loop_song_finished :: "'q MusicPlayer \<Rightarrow> int \<Rightarrow> 'q MusicPlayer" where
  "playback_loop_song_finished p guild_id =
     cleanup_current_audio (stop_playback_timing p guild_id) guild_id"

subsection \<open>\<open>_inactivity_timer_task\<close>\<close>

text \<open>
  How \<open>asyncio.sleep(timeout_seconds)\<close> ends: it returns at some time, or the task is
  cancelled while it sleeps. \<open>asyncio.sleep\<close> does not return before the delay is over;
  \<open>sleep_contract\<close> says so of a sleep begun at \<open>started\<close>.
\<close>

datatype sleep_outcome = Woke real | SleepCancelled

definition sleep_contract :: "real \<Rightarrow> int \<Rightarrow> sleep_outcome \<Rightarrow> bool" where
  "sleep_contract started timeout_seconds outcome =
     (case outcome of Woke t \<Rightarrow> started + of_int timeout_seconds \<le> t | SleepCancelled \<Rightarrow> True)"

text \<open>The \<open>finally\<close> clause of the timer task.\<close>

definition inactivity_timer_finally :: "'q MusicPlayer \<Rightarrow> int \<Rightarrow> 'q MusicPlayer" where
  "inactivity_timer_finally p guild_id =
     (if dict_in guild_id (inactivity_timers p)
      then p\<lparr>inactivity_timers := dict_del guild_id (inactivity_timers p)\<rparr>
      else p)"

text \<open>
  The task from the end of its sleep on. \<open>is_connected\<close> and \<open>is_playing\<close> are the
  answers of the voice manager at that moment.
\<close>

definition inactivity_timer_task ::
  "'q MusicPlayer \<Rightarrow> int \<Rightarrow> sleep_outcome \<Rightarrow> bool \<Rightarrow> bool \<Rightarrow> 'q MusicPlayer" where
  "inactivity_timer_task p guild_id outcome is_connected is_playing =
     (case outcome of
        SleepCancelled \<Rightarrow> inactivity_timer_finally p guild_id
      | Woke t \<Rightarrow>
          (let p = (if is_connected \<and> \<not> is_playing
                    then (let p = cleanup_guild_state p guild_id
                          in p\<lparr>voice_disconnects := voice_disconnects p @ [guild_id]\<rparr>)
                    else p)
           in inactivity_timer_finally p guild_id))"

subsection \<open>The operations on the per-guild maps\<close>

text \<open>
  The functions of the player that write one of the per-guild maps, each as one step on
  the state. The public operations reach the maps through these only, but for
  \<open>cleanup_all\<close>, which cancels every task and then empties every map.
\<close>

datatype player_op =
    StartPlayback int real
  | ResetInactivityTimer int real
  | StartInactivityTimer int
  | StopInactivityTimer int
  | CleanupCurrentAudio int
  | CleanupGuildState int
  | StartPlaybackTiming int real
  | PausePlaybackTiming int real
  | ResumePlaybackTiming int real
  | StopPlaybackTiming int
  | UpdateTimingAfterSeek int real real
  | LoopNoMoreSongs int
  | LoopSongReady int "string option" bool real
  | LoopSongFinished int
  | LoopFinally int
  | TimerTask int sleep_outcome bool bool

fun apply_op :: "player_op \<Rightarrow> 'q MusicPlayer \<Rightarrow> 'q MusicPlayer" where
  "apply_op (StartPlayback g now) p = start_playback p g now"
| "apply_op (ResetInactivityTimer g now) p = reset_inactivity_timer p g now"
| "apply_op (StartInactivityTimer g) p = start_inactivity_timer p g"
| "apply_op (StopInactivityTimer g) p = stop_inactivity_timer p g"
| "apply_op (CleanupCurrentAudio g) p = cleanup_current_audio p g"
| "apply_op (CleanupGuildState g) p = cleanup_guild_state p g"
| "apply_op (StartPlaybackTiming g now) p = start_playback_timing p g now"
| "apply_op (PausePlaybackTiming g now) p = pause_playback_timing p g now"
| "apply_op (ResumePlaybackTiming g now) p = resume_playback_timing p g now"
| "apply_op (StopPlaybackTiming g) p = stop_playback_timing p g"
| "apply_op (UpdateTimingAfterSeek g t now) p = update_timing_after_seek p g t now"
| "apply_op (LoopNoMoreSongs g) p = playback_loop_no_more_songs p g"
| "apply_op (LoopSongReady g path played now) p = playback_loop_song_ready p g path played now"
| "apply_op (LoopSongFinished g) p = playback_loop_song_finished p g"
| "apply_op (LoopFinally g) p = playback_loop_finally p g"
| "apply_op (TimerTask g outcome is_connected is_playing) p =
     inactivity_timer_task p g outcome is_connected is_playing"

text \<open>A sequence of operations, from left to right.\<close>

fun apply_ops :: "player_op list \<Rightarrow> 'q MusicPlayer \<Rightarrow> 'q MusicPlayer" where
  "apply_ops [] p = p"
| "apply_ops (op # ops) p = apply_ops ops (apply_op op p)"

text \<open>A dictionary holds at most one entry per key.\<close>

definition one_entry_per_key :: "('k \<times> 'v) list \<Rightarrow> bool" where
  "one_entry_per_key d = distinct (map fst d)"

text \<open>
  The task handles the player holds or has cancelled are handles of tasks it created.
\<close>

definition handles_known :: "'q MusicPlayer \<Rightarrow> bool" where
  "handles_known p =
     (list_all (\<lambda>t. t < length (tasks_created p))
        (map snd (playback_tasks p) @ map snd (inactivity_timers p) @ tasks_cancelled p))"

definition tasks_inv :: "'q MusicPlayer \<Rightarrow> bool" where
  "tasks_inv p =
     (one_entry_per_key (playback_tasks p) \<and> one_entry_per_key (inactivity_timers p)
      \<and> handles_known p)"

text \<open>
  The tasks the player created and never cancelled, each with its handle. A task that is
  in this list and has not run to its end is running or waiting.
\<close>

definition uncancelled :: "'q MusicPlayer \<Rightarrow> (nat \<times> coroutine) list" where
  "uncancelled p =
     filter (\<lambda>(t, c). t \<notin> set (tasks_cancelled p)) (enumerate 0 (tasks_created p))"

text \<open>
  Two states agree on everything but the timing maps and the time of the last activity.
\<close>

definition same_but_timing :: "'q MusicPlayer \<Rightarrow> 'q MusicPlayer \<Rightarrow> bool" where
  "same_but_timing f p =
     (playback_tasks f = playback_tasks p \<and> inactivity_timers f = inactivity_timers p
      \<and> tasks_created f = tasks_created p \<and> tasks_cancelled f = tasks_cancelled p
      \<and> current_audio_files f = current_audio_files p
      \<and> voice_disconnects f = voice_disconnects p \<and> files_cleaned f = files_cleaned p
      \<and> queue_managers f = queue_managers p \<and> config f = config p)"

section \<open>catbox\_client.py: \<open>CatboxClient._make_head_request_with_retry\<close>\<close>

text \<open>
  What the function does to the world, in order: a \<open>HEAD\<close> request (tagged with the
  number of the attempt) or \<open>asyncio.sleep(wait_time)\<close>.
\<close>

datatype effect = Head nat | Sleep nat

text \<open>
  The network is the argument \<open>head\<close>: \<open>head attempt\<close> is what
  \<open>session.head(url, headers=...)\<close> does at that attempt, a response or an exception.
  The loop \<open>for attempt in range(max_retries + 1)\<close> is a recursion over the list of the
  attempt numbers; the result is the trace of effects and what the call returns or
  raises.
\<close>

fun retry_attempts ::
  "(nat \<Rightarrow> exn + 'r) \<Rightarrow> nat \<Rightarrow> nat list \<Rightarrow> effect list \<times> (exn + 'r option)" where
  "retry_attempts head max_retries [] = ([], Inr None)"
| "retry_attempts head max_retries (attempt # rest) =
     (case head attempt of
        Inr response \<Rightarrow> ([Head attempt], Inr (Some response))
      | Inl (ClientError e) \<Rightarrow>
          (let (trace, result) = retry_attempts head max_retries rest
           in if attempt < max_retries
              then (Head attempt # Sleep (2 ^ attempt) # trace, result)
              else (Head attempt # trace, result))
      | Inl e \<Rightarrow> ([Head attempt], Inl e))"

definition make_head_request_with_retry ::
  "(nat \<Rightarrow> exn + 'r) \<Rightarrow> nat \<Rightarrow> effect list \<times> (exn + 'r option)" where
  "make_head_request_with_retry head max_retries =
     retry_attempts head max_retries [0..<max_retries + 1]"

text \<open>The default \<open>max_retries: int = 2\<close>, which both callers use.\<close>

definition default_max_retries :: nat where
  "default_max_retries = 2"

text \<open>The number of requests in a trace, and whether an attempt raised a client error.\<close>

definition attempts :: "effect list \<Rightarrow> nat" where
  "attempts trace = length (filter (\<lambda>e. case e of Head _ \<Rightarrow> True | Sleep _ \<Rightarrow> False) trace)"

definition client_error :: "exn + 'r \<Rightarrow> bool" where
  "client_error outcome = (case outcome of Inl (ClientError _) \<Rightarrow> True | _ \<Rightarrow> False)"

text \<open>The trace of \<open>k\<close> failed attempts from attempt \<open>i\<close> on, each followed by its wait.\<close>

definition failed_attempts :: "nat \<Rightarrow> nat \<Rightarrow> effect list" where
  "failed_attempts i k = concat (map (\<lambda>a. [Head a, Sleep (2 ^ a)]) [i..<i + k])"

section \<open>Recognising the URLs of the two sources\<close>

text \<open>
  The class \<open>\w\<close> of a regular expression on \<open>str\<close> (the alphanumeric characters and the
  underscore) and \<open>str.lower\<close>, on the code points 0 to 255.
\<close>

definition py_isword :: "char \<Rightarrow> bool" where
  "py_isword c =
     (let n = (of_char c :: nat)
      in (48 \<le> n \<and> n \<le> 57) \<or> (65 \<le> n \<and> n \<le> 90) \<or> n = 95 \<or> (97 \<le> n \<and> n \<le> 122)
         \<or> n = 170 \<or> n = 178 \<or> n = 179 \<or> n = 181 \<or> n = 185 \<or> n = 186
         \<or> (188 \<le> n \<and> n \<le> 190) \<or> (192 \<le> n \<and> n \<le> 214) \<or> (216 \<le> n \<and> n \<le> 246)
         \<or> (248 \<le> n \<and> n \<le> 255))"

definition py_lower_char :: "char \<Rightarrow> char" where
  "py_lower_char c =
     (let n = (of_char c :: nat)
      in if (65 \<le> n \<and> n \<le> 90) \<or> (192 \<le> n \<and> n \<le> 214) \<or> (216 \<le> n \<and> n \<le> 222)
         then char_of (n + 32) else c)"

definition lower :: "string \<Rightarrow> string" where
  "lower s = map py_lower_char s"

subsection \<open>\<open>YouTubeClient.is_youtube_url\<close>\<close>

text \<open>
  Each of the four patterns is \<open>(?:https?://)?(?:www\.)?\<close>, a literal and \<open>[\w-]+\<close>, tried
  with \<open>re.match\<close>, that is at the start of the URL and with nothing asked of its end.
  An optional group that can be taken must be taken for a match: what follows the first
  group starts with \<open>www.\<close> or \<open>youtu\<close>, never with \<open>http\<close>, and what follows the second
  starts with \<open>youtu\<close>, never with \<open>www.\<close>.
\<close>

definition skip_scheme :: "string \<Rightarrow> string" where
  "skip_scheme s =
     (if startswith s ''https://'' then drop 8 s
      else if startswith s ''http://'' then drop 7 s
      else s)"

definition skip_www :: "string \<Rightarrow> string" where
  "skip_www s = (if startswith s ''www.'' then drop 4 s else s)"

text \<open>\<open>[\w-]+\<close> at the start of a string: one character of the class is enough.\<close>

definition word_or_dash_first :: "string \<Rightarrow> bool" where
  "word_or_dash_first s = (case s of [] \<Rightarrow> False | c # _ \<Rightarrow> py_isword c \<or> c = CHR ''-'')"

definition match_youtube_pattern :: "string \<Rightarrow> string \<Rightarrow> bool" where
  "match_youtube_pattern literal url =
     (let s = skip_www (skip_scheme url)
      in startswith s literal \<and> word_or_dash_first (drop (length literal) s))"

text \<open>The literals of \<open>youtube_patterns\<close>, in the order of the source.\<close>

definition youtube_patterns :: "string list" where
  "youtube_patterns =
     [''youtube.com/watch?v='', ''youtu.be/'', ''youtube.com/embed/'', ''youtube.com/v/'']"

definition is_youtube_url :: "string \<Rightarrow> bool" where
  "is_youtube_url url = list_ex (\<lambda>literal. match_youtube_pattern literal url) youtube_patterns"

subsection \<open>\<open>CatboxClient.is_catbox_url\<close>\<close>

definition SUPPORTED_FORMATS :: "string list" where
  "SUPPORTED_FORMATS = [''mp3'', ''wav'', ''ogg'', ''m4a'', ''flac'', ''aac'', ''opus'', ''wma'']"

text \<open>
  \<open>urllib.parse.urlparse\<close> is a parameter: \<open>urlparse url\<close> is the pair of \<open>netloc\<close> and
  \<open>path\<close> of the result, or \<open>None\<close> when the call raises (the function then returns
  \<open>False\<close> from its handler).
\<close>

definition is_catbox_url :: "(string \<Rightarrow> (string \<times> string) option) \<Rightarrow> string \<Rightarrow> bool" where
  "is_catbox_url urlparse url =
     (case urlparse url of
        None \<Rightarrow> False
      | Some (netloc, parsed_path) \<Rightarrow>
          if lower netloc \<noteq> ''files.catbox.moe'' then False
          else
            (let path = lower parsed_path
             in if path = [] \<or> CHR ''.'' \<notin> set path then False
                else
                  (let file_extension = last (split_on CHR ''.'' path)
                   in file_extension \<in> set SUPPORTED_FORMATS)))"

subsection \<open>\<open>MusicPlayer.detect_audio_source_type\<close>\<close>

datatype AudioSourceType = YOUTUBE | CATBOX

definition detect_audio_source_type ::
  "(string \<Rightarrow> (string \<times> string) option) \<Rightarrow> string \<Rightarrow> AudioSourceType option" where
  "detect_audio_source_type urlparse url =
     (if is_youtube_url url then Some YOUTUBE
      else if is_catbox_url urlparse url then Some CATBOX
      else None)"

section \<open>catbox\_client.py: \<open>extract_audio_info\<close> and \<open>validate_audio_file\<close>\<close>

text \<open>
  \<open>int(s)\<close> on any string: white space around the number (the codes 9 to 13, 32, 133 and
  160) is dropped, a sign may lead, and the digits may be grouped by single underscores.
\<close>

definition int_space :: "char \<Rightarrow> bool" where
  "int_space c =
     (let n = (of_char c :: nat) in (9 \<le> n \<and> n \<le> 13) \<or> n = 32 \<or> n = 133 \<or> n = 160)"

fun digit_groups :: "string \<Rightarrow> bool" where
  "digit_groups [] = False"
| "digit_groups [c] = is_digit c"
| "digit_groups (c # d # s) =
     (is_digit c \<and> (if d = CHR ''_'' then digit_groups s else digit_groups (d # s)))"

definition py_int_text :: "string \<Rightarrow> exn + int" where
  "py_int_text s =
     (let t = rev (dropWhile int_space (rev (dropWhile int_space s)));
          negative = startswith t ''-'';
          u = (if startswith t ''-'' \<or> startswith t ''+'' then tl t else t)
      in if \<not> digit_groups u then
           Inl (ValueError (''invalid literal for int() with base 10: '' @ s))
         else bnd (py_int (filter (\<lambda>c. c \<noteq> CHR ''_'') u))
                (\<lambda>n. Inr (if negative then - n else n)))"

text \<open>
  \<open>n / (1024 * 1024)\<close> for an integer \<open>n\<close>: the quotient rounded to the nearest binary64
  value, \<open>OverflowError\<close> when that value would reach \<open>2 ^ 1024\<close>. The divisor is
  \<open>2 ^ 20\<close>, so the quotient is rounded as \<open>n\<close> is.
\<close>

definition div_1024_1024 :: "int \<Rightarrow> exn + real" where
  "div_1024_1024 n =
     (let v = round_to_53_bits \<bar>n\<bar>
      in if 2 ^ 1044 \<le> v then Inl (OverflowError ''integer division result too large for a float'')
         else Inr ((if n < 0 then - of_int v else of_int v) / (1024 * 1024)))"

text \<open>
  \<open>os.path.basename(p)\<close>, on a system whose separator is the slash, and
  \<open>s.rsplit(c, 1)[0]\<close> for a string \<open>s\<close> that has the character \<open>c\<close>.
\<close>

definition basename :: "string \<Rightarrow> string" where
  "basename p = last (split_on CHR ''/'' p)"

definition before_last :: "char \<Rightarrow> string \<Rightarrow> string" where
  "before_last c s = rev (tl (dropWhile (\<lambda>x. x \<noteq> c) (rev s)))"

text \<open>
  What the functions read of an \<open>aiohttp.ClientResponse\<close>: \<open>response.status\<close> and
  \<open>response.headers.get('content-length')\<close>.
\<close>

record ClientResponse =
  status :: int
  content_length :: "string option"

text \<open>
  The dataclasses \<open>AudioInfo\<close> of youtube\_client.py and \<open>CatboxAudioInfo\<close>. The second
  has the fields of the first and two more; each field is named \<open>info_\<close> and its name in
  the source.
\<close>

record AudioInfo =
  info_title :: string
  info_duration :: int
  info_file_path :: string
  info_url :: string
  info_uploader :: string
  info_thumbnail_url :: "string option"

record CatboxAudioInfo = AudioInfo +
  info_file_size :: "int option"
  info_file_format :: "string option"

definition extract_filename_from_url ::
  "(string \<Rightarrow> (string \<times> string) option) \<Rightarrow> string \<Rightarrow> string" where
  "extract_filename_from_url urlparse url =
     (case urlparse url of
        None \<Rightarrow> ''Unknown Audio File''
      | Some (netloc, parsed_path) \<Rightarrow>
          (let filename = basename parsed_path
           in if CHR ''.'' \<in> set filename then ''Catbox - '' @ before_last CHR ''.'' filename
              else ''Catbox - '' @ filename))"

definition get_file_format_from_url ::
  "(string \<Rightarrow> (string \<times> string) option) \<Rightarrow> string \<Rightarrow> string option" where
  "get_file_format_from_url urlparse url =
     (case urlparse url of
        None \<Rightarrow> None
      | Some (netloc, parsed_path) \<Rightarrow>
          (let path = lower parsed_path
           in if CHR ''.'' \<in> set path then Some (last (split_on CHR ''.'' path)) else None))"

text \<open>
  \<open>await self._make_head_request_with_retry(url)\<close> as the two callers write it: the
  session is obtained first (\<open>get_session\<close> is what \<open>await self._get_session()\<close> does,
  which may raise), then the loop runs with the default \<open>max_retries\<close>.
\<close>

definition await_head_request :: "exn + unit \<Rightarrow> (nat \<Rightarrow> exn + 'r) \<Rightarrow> exn + 'r option" where
  "await_head_request get_session head =
     bnd get_session (\<lambda>_. snd (make_head_request_with_retry head default_max_retries))"

text \<open>
  \<open>CatboxClient.extract_audio_info\<close>. The handlers \<open>except aiohttp.ClientError\<close> and
  \<open>except Exception\<close> both return \<open>None\<close> and are one handler here.
\<close>

definition CatboxClient_extract_audio_info ::
  "(string \<Rightarrow> (string \<times> string) option) \<Rightarrow> exn + unit \<Rightarrow> (nat \<Rightarrow> exn + ClientResponse)
     \<Rightarrow> string \<Rightarrow> exn + CatboxAudioInfo option" where
  "CatboxClient_extract_audio_info urlparse get_session head url =
     (if \<not> is_catbox_url urlparse url then Inr None
      else
        except_Exception
          (bnd (await_head_request get_session head) (\<lambda>response.
             case response of
               None \<Rightarrow> Inr None
             | Some r \<Rightarrow>
                 if status r \<noteq> 200 then Inr None
                 else
                   bnd (case content_length r of
                          None \<Rightarrow> Inr None
                        | Some text \<Rightarrow>
                            if text = [] then Inr None
                            else bnd (py_int_text text) (\<lambda>n. Inr (Some n))) (\<lambda>file_size.
                   Inr (Some \<lparr>info_title = extract_filename_from_url urlparse url,
                              info_duration = 0,
                              info_file_path = url,
                              info_url = url,
                              info_uploader = ''Catbox'',
                              info_thumbnail_url = None,
                              info_file_size = file_size,
                              info_file_format = get_file_format_from_url urlparse url\<rparr>))))
          (\<lambda>e. Inr None))"

text \<open>
  The progress tracker (\<open>ProgressTracker\<close> of similubot.progress.base, a module outside the
  sources at hand) is a parameter: \<open>tracker c\<close> is what the call \<open>c\<close> does, return or
  raise. \<open>TrackerNew\<close> is the construction of the tracker; the texts handed to \<open>update\<close>
  and \<open>complete\<close> are left out.
\<close>

datatype tracker_call =
    TrackerNew
  | TrackerAddCallback
  | TrackerStart
  | TrackerUpdate nat
  | TrackerFail string
  | TrackerComplete

text \<open>
  \<open>validate_audio_file\<close>: the \<open>try\<close> block, then the function. The first request is the
  one of \<open>extract_audio_info\<close>, the second the one of the function itself: \<open>get_session k\<close>
  and \<open>head k\<close> are the session and the network at request \<open>k\<close>. \<open>progress_callback\<close>
  tells whether a callback is given.
\<close>

definition validate_audio_file_body ::
  "(string \<Rightarrow> (string \<times> string) option) \<Rightarrow> (nat \<Rightarrow> exn + unit)
     \<Rightarrow> (nat \<Rightarrow> nat \<Rightarrow> exn + ClientResponse) \<Rightarrow> (tracker_call \<Rightarrow> exn + unit) \<Rightarrow> string
     \<Rightarrow> exn + bool \<times> CatboxAudioInfo option \<times> string option" where
  "validate_audio_file_body urlparse get_session head tracker url =
     bnd (tracker TrackerStart) (\<lambda>_.
     bnd (tracker (TrackerUpdate 25)) (\<lambda>_.
     bnd (CatboxClient_extract_audio_info urlparse (get_session 0) (head 0) url) (\<lambda>audio_info.
       case audio_info of
         None \<Rightarrow>
           bnd (tracker (TrackerFail ''Failed to extract audio information'')) (\<lambda>_.
           Inr (False, None, Some ''Failed to extract audio information from Catbox URL''))
       | Some info \<Rightarrow>
           bnd (tracker (TrackerUpdate 75)) (\<lambda>_.
           bnd (await_head_request (get_session 1) (head 1)) (\<lambda>response.
             case response of
               None \<Rightarrow>
                 (let error_msg = ''Failed to connect to Catbox server after retries''
                  in bnd (tracker (TrackerFail error_msg)) (\<lambda>_. Inr (False, None, Some error_msg)))
             | Some r \<Rightarrow>
                 if status r \<noteq> 200 then
                   (let error_msg =
                          ''Catbox file not accessible (HTTP '' @ str_int (status r) @ '')''
                          @ (if status r = 403 then '' - Possible anti-bot detection''
                             else if status r = 429 then '' - Rate limited''
                             else if status r = 404 then '' - File not found''
                             else [])
                    in bnd (tracker (TrackerFail error_msg)) (\<lambda>_. Inr (False, None, Some error_msg)))
                 else
                   bnd (case info_file_size info of
                          None \<Rightarrow> Inr 0
                        | Some n \<Rightarrow> if n = 0 then Inr 0 else div_1024_1024 n) (\<lambda>file_size_mb.
                   bnd (tracker TrackerComplete) (\<lambda>_.
                   Inr (True, Some info, None))))))))"

definition validate_audio_file ::
  "(string \<Rightarrow> (string \<times> string) option) \<Rightarrow> (nat \<Rightarrow> exn + unit)
     \<Rightarrow> (nat \<Rightarrow> nat \<Rightarrow> exn + ClientResponse) \<Rightarrow> (tracker_call \<Rightarrow> exn + unit) \<Rightarrow> string \<Rightarrow> bool
     \<Rightarrow> exn + bool \<times> CatboxAudioInfo option \<times> string option" where
  "validate_audio_file urlparse get_session head tracker url progress_callback =
     (if \<not> is_catbox_url urlparse url then
        Inr (False, None, Some (''Invalid Catbox URL: '' @ url))
      else
        bnd (tracker TrackerNew) (\<lambda>_.
        bnd (if progress_callback then tracker TrackerAddCallback else Inr ()) (\<lambda>_.
        except_Exception
          (validate_audio_file_body urlparse get_session head tracker url)
          (\<lambda>e. let error_msg = ''Error validating Catbox URL '' @ url @ '': '' @ exn_str e
                in bnd (tracker (TrackerFail error_msg)) (\<lambda>_. Inr (False, None, Some error_msg))))))"

section \<open>music\_player.py: the public operations\<close>

text \<open>
  An operation takes the player, changes it, and returns a value or raises; what it did
  to the player before raising stays done.
\<close>

type_synonym ('q, 'a) action = "'q MusicPlayer \<Rightarrow> (exn + 'a) \<times> 'q MusicPlayer"

definition ret :: "'a \<Rightarrow> ('q, 'a) action" where
  "ret x p = (Inr x, p)"

definition seq :: "('q, 'a) action \<Rightarrow> ('a \<Rightarrow> ('q, 'b) action) \<Rightarrow> ('q, 'b) action" where
  "seq m f p = (case m p of (Inl e, p') \<Rightarrow> (Inl e, p') | (Inr x, p') \<Rightarrow> f x p')"

text \<open>The answer of a collaborator that leaves the player as it is.\<close>

definition call :: "exn + 'a \<Rightarrow> ('q, 'a) action" where
  "call outcome p = (outcome, p)"

definition upd :: "('q MusicPlayer \<Rightarrow> 'q MusicPlayer) \<Rightarrow> ('q, unit) action" where
  "upd f p = (Inr (), f p)"

text \<open>\<open>try: body  except Exception as e: handler(e)\<close>\<close>

definition try_except_Exception ::
  "('q, 'a) action \<Rightarrow> (exn \<Rightarrow> ('q, 'a) action) \<Rightarrow> ('q, 'a) action" where
  "try_except_Exception body handler p =
     (case body p of
        (Inl e, p') \<Rightarrow> if is_Exception e then handler e p' else (Inl e, p')
      | (Inr x, p') \<Rightarrow> (Inr x, p'))"

text \<open>
  The collaborators of the player whose modules are outside the sources at hand (the
  queue manager, the voice manager, the unified audio information) or reach the network
  (the two \<open>extract_audio_info\<close>). Each is a parameter: what the call answers, or the
  exception it raises. A method of the queue manager also returns the queue manager as the
  call left it. \<open>'y\<close> and \<open>'c\<close> are the audio information of the two clients, \<open>'i\<close> the
  unified one, \<open>'s\<close> a song of the queue. \<open>ffmpeg_pcm_audio path t\<close> is the construction
  \<open>discord.FFmpegPCMAudio(path, options='-ss t -vn')\<close>, and \<open>voice_play_audio\<close> plays the
  source so made.
\<close>

record ('q, 'y, 'c, 'i, 's) collaborators =
  urlparse :: "string \<Rightarrow> (string \<times> string) option"
  youtube_extract_audio_info :: "string \<Rightarrow> exn + 'y option"
  catbox_extract_audio_info :: "string \<Rightarrow> exn + 'c option"
  from_youtube_info :: "'y \<Rightarrow> exn + 'i"
  from_catbox_info :: "'c \<Rightarrow> exn + 'i"
  new_queue_manager :: "int \<Rightarrow> 'q"
  queue_add_song :: "'i \<Rightarrow> 'q \<Rightarrow> (exn + int) \<times> 'q"
  queue_get_current_song :: "'q \<Rightarrow> (exn + 's option) \<times> 'q"
  queue_clear_queue :: "'q \<Rightarrow> (exn + nat) \<times> 'q"
  queue_jump_to_position :: "int \<Rightarrow> 'q \<Rightarrow> (exn + 's option) \<times> 'q"
  song_title :: "'s \<Rightarrow> string"
  song_duration :: "'s \<Rightarrow> exn + real"
  voice_is_playing :: "int \<Rightarrow> exn + bool"
  voice_is_connected :: "int \<Rightarrow> exn + bool"
  voice_stop_audio :: "int \<Rightarrow> exn + bool"
  ffmpeg_pcm_audio :: "string \<Rightarrow> real \<Rightarrow> exn + unit"
  voice_play_audio :: "int \<Rightarrow> exn + bool"
  voice_disconnect_from_guild :: "int \<Rightarrow> exn + bool"

text \<open>\<open>get_queue_manager\<close>: the queue manager of the guild, made first if there is none.\<close>

definition get_queue_manager :: "(int \<Rightarrow> 'q) \<Rightarrow> int \<Rightarrow> ('q, 'q) action" where
  "get_queue_manager new_qm guild_id p =
     (case dict_get (queue_managers p) guild_id of
        Some q \<Rightarrow> (Inr q, p)
      | None \<Rightarrow>
          (Inr (new_qm guild_id),
           p\<lparr>queue_managers := dict_set guild_id (new_qm guild_id) (queue_managers p)\<rparr>))"

text \<open>
  A method call on the queue manager that \<open>get_queue_manager\<close> returned: the object in
  the map is the one the call changes.
\<close>

definition queue_call :: "(int \<Rightarrow> 'q) \<Rightarrow> int \<Rightarrow> ('q \<Rightarrow> (exn + 'a) \<times> 'q) \<Rightarrow> ('q, 'a) action" where
  "queue_call new_qm guild_id method =
     seq (get_queue_manager new_qm guild_id) (\<lambda>q p.
       (let (answer, q') = method q
        in (answer, p\<lparr>queue_managers := dict_set guild_id q' (queue_managers p)\<rparr>)))"

subsection \<open>\<open>add_song_to_queue\<close>\<close>

definition unsupported_url_message :: string where
  "unsupported_url_message =
     ''Unsupported URL format. Please provide a YouTube or Catbox audio file URL.''"

text \<open>
  The part of the \<open>try\<close> block from the extraction on, for a URL whose source type is
  known. The two readings of the clock, in \<open>_reset_inactivity_timer\<close> and in
  \<open>_start_playback\<close>, are taken as one, \<open>now\<close>.
\<close>

definition add_song_of_source ::
  "('q, 'y, 'c, 'i, 's) collaborators \<Rightarrow> AudioSourceType \<Rightarrow> string \<Rightarrow> int \<Rightarrow> real
     \<Rightarrow> ('q, bool \<times> int option \<times> string option) action" where
  "add_song_of_source w source_type url guild_id now =
     seq (case source_type of
            YOUTUBE \<Rightarrow>
              seq (call (youtube_extract_audio_info w url)) (\<lambda>youtube_info.
                case youtube_info of
                  None \<Rightarrow> ret None
                | Some info \<Rightarrow> seq (call (from_youtube_info w info)) (\<lambda>u. ret (Some u)))
          | CATBOX \<Rightarrow>
              seq (call (catbox_extract_audio_info w url)) (\<lambda>catbox_info.
                case catbox_info of
                  None \<Rightarrow> ret None
                | Some info \<Rightarrow> seq (call (from_catbox_info w info)) (\<lambda>u. ret (Some u))))
       (\<lambda>unified_audio_info.
          case unified_audio_info of
            None \<Rightarrow> ret (False, None, Some ''Failed to extract audio information from URL'')
          | Some info \<Rightarrow>
              seq (queue_call (new_queue_manager w) guild_id (queue_add_song w info)) (\<lambda>position.
              seq (upd (\<lambda>p. reset_inactivity_timer p guild_id now)) (\<lambda>_.
              seq (call (voice_is_playing w guild_id)) (\<lambda>playing.
              seq (if \<not> playing then upd (\<lambda>p. start_playback p guild_id now) else ret ()) (\<lambda>_.
              ret (True, Some position, None))))))"

definition add_song_to_queue ::
  "('q, 'y, 'c, 'i, 's) collaborators \<Rightarrow> string \<Rightarrow> int \<Rightarrow> real
     \<Rightarrow> ('q, bool \<times> int option \<times> string option) action" where
  "add_song_to_queue w url guild_id now =
     try_except_Exception
       (case detect_audio_source_type (urlparse w) url of
          None \<Rightarrow> ret (False, None, Some unsupported_url_message)
        | Some source_type \<Rightarrow> add_song_of_source w source_type url guild_id now)
       (\<lambda>e. ret (False, None, Some (''Error adding song to queue: '' @ exn_str e)))"

subsection \<open>\<open>skip_current_song\<close>, \<open>stop_playback\<close> and \<open>jump_to_position\<close>\<close>

text \<open>Each operation is its \<open>try\<close> block, named \<open>..._body\<close>, under its handler.\<close>

definition skip_current_song_body ::
  "('q, 'y, 'c, 'i, 's) collaborators \<Rightarrow> int
     \<Rightarrow> ('q, bool \<times> string option \<times> string option) action" where
  "skip_current_song_body w guild_id =
     seq (queue_call (new_queue_manager w) guild_id (queue_get_current_song w)) (\<lambda>current_song.
       case current_song of
         None \<Rightarrow> ret (False, None, Some ''No song is currently playing'')
       | Some song \<Rightarrow>
           seq (call (voice_stop_audio w guild_id)) (\<lambda>_.
           seq (upd (\<lambda>p. cleanup_current_audio p guild_id)) (\<lambda>_.
           ret (True, Some (song_title w song), None))))"

definition skip_current_song ::
  "('q, 'y, 'c, 'i, 's) collaborators \<Rightarrow> int
     \<Rightarrow> ('q, bool \<times> string option \<times> string option) action" where
  "skip_current_song w guild_id =
     try_except_Exception (skip_current_song_body w guild_id)
       (\<lambda>e. ret (False, None, Some (''Error skipping song: '' @ exn_str e)))"

definition stop_playback_body ::
  "('q, 'y, 'c, 'i, 's) collaborators \<Rightarrow> int \<Rightarrow> ('q, bool \<times> string option) action" where
  "stop_playback_body w guild_id =
     seq (call (voice_stop_audio w guild_id)) (\<lambda>_.
     seq (queue_call (new_queue_manager w) guild_id (queue_clear_queue w)) (\<lambda>cleared_count.
     seq (upd (\<lambda>p. cleanup_guild_state p guild_id)) (\<lambda>_.
     seq (upd (\<lambda>p. p\<lparr>voice_disconnects := voice_disconnects p @ [guild_id]\<rparr>)) (\<lambda>_.
     seq (call (voice_disconnect_from_guild w guild_id)) (\<lambda>_.
     ret (True, None))))))"

definition stop_playback ::
  "('q, 'y, 'c, 'i, 's) collaborators \<Rightarrow> int \<Rightarrow> ('q, bool \<times> string option) action" where
  "stop_playback w guild_id =
     try_except_Exception (stop_playback_body w guild_id)
       (\<lambda>e. ret (False, Some (''Error stopping playback: '' @ exn_str e)))"

definition jump_to_position_body ::
  "('q, 'y, 'c, 'i, 's) collaborators \<Rightarrow> int \<Rightarrow> int
     \<Rightarrow> ('q, bool \<times> string option \<times> string option) action" where
  "jump_to_position_body w guild_id position =
     seq (get_queue_manager (new_queue_manager w) guild_id) (\<lambda>_.
     seq (call (voice_stop_audio w guild_id)) (\<lambda>_.
     seq (upd (\<lambda>p. cleanup_current_audio p guild_id)) (\<lambda>_.
     seq (queue_call (new_queue_manager w) guild_id (queue_jump_to_position w position)) (\<lambda>song.
       case song of
         None \<Rightarrow> ret (False, None, Some (''Invalid queue position: '' @ str_int position))
       | Some song \<Rightarrow> ret (True, Some (song_title w song), None)))))"

definition jump_to_position ::
  "('q, 'y, 'c, 'i, 's) collaborators \<Rightarrow> int \<Rightarrow> int
     \<Rightarrow> ('q, bool \<times> string option \<times> string option) action" where
  "jump_to_position w guild_id position =
     try_except_Exception (jump_to_position_body w guild_id position)
       (\<lambda>e. ret (False, None,
          Some (''Error jumping to position '' @ str_int position @ '': '' @ exn_str e)))"

subsection \<open>\<open>_perform_seek\<close> and \<open>seek_to_position\<close>\<close>

definition perform_seek_body ::
  "('q, 'y, 'c, 'i, 's) collaborators \<Rightarrow> int \<Rightarrow> real \<Rightarrow> real \<Rightarrow> ('q, bool) action" where
  "perform_seek_body w guild_id target_seconds now =
     (\<lambda>p. (case dict_get (current_audio_files p) guild_id of
              None \<Rightarrow> ret False
            | Some audio_file_path \<Rightarrow>
                if audio_file_path = [] then ret False
                else
                  seq (call (voice_stop_audio w guild_id)) (\<lambda>_.
                  seq (call (ffmpeg_pcm_audio w audio_file_path target_seconds)) (\<lambda>_.
                  seq (upd (\<lambda>p. update_timing_after_seek p guild_id target_seconds now)) (\<lambda>_.
                  call (voice_play_audio w guild_id))))) p)"

definition perform_seek ::
  "('q, 'y, 'c, 'i, 's) collaborators \<Rightarrow> int \<Rightarrow> real \<Rightarrow> real \<Rightarrow> ('q, bool) action" where
  "perform_seek w guild_id target_seconds now =
     try_except_Exception (perform_seek_body w guild_id target_seconds now) (\<lambda>e. ret False)"

definition seek_to_position_body ::
  "('q, 'y, 'c, 'i, 's) collaborators \<Rightarrow> int \<Rightarrow> string \<Rightarrow> real
     \<Rightarrow> ('q, bool \<times> string option) action" where
  "seek_to_position_body w guild_id time_str now =
     seq (call (voice_is_connected w guild_id)) (\<lambda>connected.
       if \<not> connected then ret (False, Some ''No active music playback'')
       else
         seq (queue_call (new_queue_manager w) guild_id (queue_get_current_song w)) (\<lambda>current_song.
           case current_song of
             None \<Rightarrow> ret (False, Some ''No song currently playing'')
           | Some song \<Rightarrow>
               seq (call (parse_seek_time time_str)) (\<lambda>seek_result.
                 case (success seek_result, target_position seek_result) of
                   (True, Some target) \<Rightarrow>
                     seq (\<lambda>p. (Inr (case get_current_playback_position p guild_id now of
                                       None \<Rightarrow> 0 | Some c \<Rightarrow> c), p)) (\<lambda>current_position.
                     seq (call (song_duration w song)) (\<lambda>duration.
                       (let is_relative = is_relative_seek time_str;
                            validation_result =
                              validate_seek_position target current_position duration is_relative
                        in case (success validation_result, target_position validation_result) of
                             (True, Some validated) \<Rightarrow>
                               seq (perform_seek w guild_id validated now) (\<lambda>ok.
                                 if \<not> ok then ret (False, Some ''Failed to seek to position'')
                                 else ret (True, None))
                           | _ \<Rightarrow>
                               ret (False,
                                 Some (or_str (error_str validation_result)
                                         ''Invalid seek position'')))))
                 | _ \<Rightarrow>
                     ret (False,
                       Some (or_str (error_str seek_result)
                               ''Failed to parse seek time'')))))"

definition seek_to_position ::
  "('q, 'y, 'c, 'i, 's) collaborators \<Rightarrow> int \<Rightarrow> string \<Rightarrow> real
     \<Rightarrow> ('q, bool \<times> string option) action" where
  "seek_to_position w guild_id time_str now =
     try_except_Exception (seek_to_position_body w guild_id time_str now)
       (\<lambda>e. ret (False, Some (''Error seeking to position: '' @ exn_str e)))"

text \<open>
  Collaborators for worked examples: no call raises, every extraction finds the audio, the
  queue answers position 1, nothing is playing and the bot is connected. \<open>urlparse\<close> here
  splits nothing off: the whole URL is the path and \<open>netloc\<close> is empty.
\<close>

definition example_collaborators :: "(unit, unit, unit, unit, unit) collaborators" where
  "example_collaborators =
     \<lparr>urlparse = (\<lambda>url. Some ([], url)),
      youtube_extract_audio_info = (\<lambda>url. Inr (Some ())),
      catbox_extract_audio_info = (\<lambda>url. Inr (Some ())),
      from_youtube_info = (\<lambda>info. Inr ()),
      from_catbox_info = (\<lambda>info. Inr ()),
      new_queue_manager = (\<lambda>guild_id. ()),
      queue_add_song = (\<lambda>info q. (Inr 1, q)),
      queue_get_current_song = (\<lambda>q. (Inr (Some ()), q)),
      queue_clear_queue = (\<lambda>q. (Inr 0, q)),
      queue_jump_to_position = (\<lambda>position q. (Inr (Some ()), q)),
      song_title = (\<lambda>song. ''a song''),
      song_duration = (\<lambda>song. Inr 100),
      voice_is_playing = (\<lambda>guild_id. Inr False),
      voice_is_connected = (\<lambda>guild_id. Inr True),
      voice_stop_audio = (\<lambda>guild_id. Inr True),
      ffmpeg_pcm_audio = (\<lambda>path seek. Inr ()),
      voice_play_audio = (\<lambda>guild_id. Inr True),
      voice_disconnect_from_guild = (\<lambda>guild_id. Inr True)\<rparr>"

section \<open>Properties of \<open>_sanitize_filename\<close>\<close>

lemma set_replace_char:
  "c \<noteq> d \<Longrightarrow> c \<notin> set (replace_char c d s)"
  by (auto simp: replace_char_def)

lemma set_replace_char_subset:
  "set (replace_char c d s) \<subseteq> insert d (set s)"
  by (auto simp: replace_char_def)

lemma replace_invalid_keeps_out:
  "x \<notin> set s \<Longrightarrow> x \<noteq> CHR ''_'' \<Longrightarrow> x \<notin> set (replace_invalid cs s)"
proof (induction cs arbitrary: s)
  case Nil
  then show ?case by simp
next
  case (Cons c cs)
  have "x \<notin> set (replace_char c CHR ''_'' s)"
    using Cons.prems set_replace_char_subset [of c "CHR ''_''" s] by auto
  then show ?case
    using Cons.IH Cons.prems(2) by simp
qed

lemma replace_invalid_removes:
  "x \<in> set cs \<Longrightarrow> x \<noteq> CHR ''_'' \<Longrightarrow> x \<notin> set (replace_invalid cs s)"
proof (induction cs arbitrary: s)
  case Nil
  then show ?case by simp
next
  case (Cons c cs)
  show ?case
  proof (cases "x = c")
    case True
    then have "x \<notin> set (replace_char c CHR ''_'' s)"
      using Cons.prems(2) set_replace_char [of c "CHR ''_''" s] by simp
    then show ?thesis
      using replace_invalid_keeps_out Cons.prems(2) by simp
  next
    case False
    then show ?thesis
      using Cons by simp
  qed
qed

lemma set_strip_subset: "set (strip s) \<subseteq> set s"
proof -
  have "set (strip s) \<subseteq> set (dropWhile py_isspace s)"
    unfolding strip_def using set_dropWhileD [of _ py_isspace "rev (dropWhile py_isspace s)"]
    by auto
  then show ?thesis
    using set_dropWhileD [of _ py_isspace s] by auto
qed

lemma underscore_valid: "CHR ''_'' \<notin> set invalid_chars"
  by (simp add: invalid_chars_def)

lemma audio_valid: "set ''audio'' \<inter> set invalid_chars = {}"
  by (simp add: invalid_chars_def)

lemma sanitized_body_valid:
  "set (take 100 (strip (replace_invalid invalid_chars f))) \<inter> set invalid_chars = {}"
proof -
  have "x \<notin> set (replace_invalid invalid_chars f)" if "x \<in> set invalid_chars" for x
    using that replace_invalid_removes [of x invalid_chars f] underscore_valid by auto
  moreover have "set (take 100 (strip (replace_invalid invalid_chars f)))
      \<subseteq> set (replace_invalid invalid_chars f)"
    using set_take_subset [of 100 "strip (replace_invalid invalid_chars f)"]
      set_strip_subset [of "replace_invalid invalid_chars f"] by blast
  ultimately show ?thesis by blast
qed

lemma take_100_audio: "take 100 s = ''audio'' \<longleftrightarrow> s = ''audio''"
proof
  assume h: "take 100 s = ''audio''"
  then have "length (take 100 s) = 5" by simp
  then have "length s = 5" by (simp add: min_def split: if_splits)
  then show "s = ''audio''" using h by simp
next
  assume "s = ''audio''"
  then show "take 100 s = ''audio''" by simp
qed

text \<open>
  C10, as stated, claims that the result is \<open>audio\<close> exactly when the input is empty after
  the replacement and the stripping. The input \<open>audio\<close> itself is returned unchanged, and
  it is not empty after the replacement and the stripping.
\<close>

theorem C10_sanitize_audio_counterexample:
  "\<not> (sanitize_filename ''audio'' = ''audio''
      \<longleftrightarrow> strip (replace_invalid invalid_chars ''audio'') = [])"
  by (simp add: sanitize_filename_def invalid_chars_def replace_char_def strip_def py_isspace_def)

text \<open>
  C10, amended: for every input string the result of \<open>_sanitize_filename\<close> is non-empty,
  has at most 100 characters and contains none of the characters
  \<open>< > : " / \ | ? *\<close>; it equals \<open>audio\<close> exactly when the input, after replacing those
  characters with underscores and stripping whitespace, is empty or is \<open>audio\<close> itself.
\<close>

theorem C10_sanitize_filename_safe:
  "sanitize_filename f \<noteq> []
   \<and> length (sanitize_filename f) \<le> 100
   \<and> set (sanitize_filename f) \<inter> set invalid_chars = {}
   \<and> (sanitize_filename f = ''audio''
        \<longleftrightarrow> strip (replace_invalid invalid_chars f) = []
            \<or> strip (replace_invalid invalid_chars f) = ''audio'')"
proof -
  let ?b = "take 100 (strip (replace_invalid invalid_chars f))"
  have r: "sanitize_filename f = (if ?b = [] then ''audio'' else ?b)"
    by (simp add: sanitize_filename_def)
  have 1: "sanitize_filename f \<noteq> []" using r by simp
  have 2: "length (sanitize_filename f) \<le> 100" using r by simp
  have 3: "set (sanitize_filename f) \<inter> set invalid_chars = {}"
  proof (cases "?b = []")
    case True
    then show ?thesis using r audio_valid by simp
  next
    case False
    then show ?thesis using r sanitized_body_valid [of f] by simp
  qed
  have e: "?b = [] \<longleftrightarrow> strip (replace_invalid invalid_chars f) = []" by simp
  have 4: "sanitize_filename f = ''audio''
        \<longleftrightarrow> strip (replace_invalid invalid_chars f) = []
            \<or> strip (replace_invalid invalid_chars f) = ''audio''"
    using r e take_100_audio [of "strip (replace_invalid invalid_chars f)"]
    by (cases "?b = []") auto
  show ?thesis using 1 2 3 4 by blast
qed

theorem C10_sanitize_filename_safe_witness:
  "sanitize_filename ''  a/b:c?  '' = ''a_b_c_''
   \<and> set ''a_b_c_'' \<inter> set invalid_chars = {}"
  using C10_sanitize_filename_safe [of "''  a/b:c?  ''"]
  by (simp add: sanitize_filename_def invalid_chars_def replace_char_def strip_def py_isspace_def)


section \<open>Properties of \<open>validate_seek_position\<close>\<close>

text \<open>
  C9: for all \<open>target_seconds\<close>, \<open>current_position\<close> and \<open>song_duration\<close>, a result of
  \<open>validate_seek_position\<close> with \<open>success = True\<close> carries the position
  \<open>p = current_position + target_seconds\<close> (relative) or \<open>p = target_seconds\<close> (absolute),
  and \<open>0 \<le> p \<le> song_duration\<close>; when the computed position is negative or beyond the
  duration, the result has \<open>success = False\<close>, an error message and no target position.
  Floats are the real numbers they denote.
\<close>

theorem C9_validate_seek_position_bounds:
  "(success (validate_seek_position t c d rel) \<longrightarrow>
      target_position (validate_seek_position t c d rel) = Some (if rel then c + t else t)
      \<and> 0 \<le> (if rel then c + t else t) \<and> (if rel then c + t else t) \<le> d)
   \<and> ((if rel then c + t else t) < 0 \<or> d < (if rel then c + t else t) \<longrightarrow>
      \<not> success (validate_seek_position t c d rel)
      \<and> error_str (validate_seek_position t c d rel) \<noteq> None
      \<and> target_position (validate_seek_position t c d rel) = None)"
  by (simp add: validate_seek_position_def seek_ok_def seek_error_def Let_def)

theorem C9_validate_seek_position_bounds_witness:
  "success (validate_seek_position 30 10 100 True)
   \<and> target_position (validate_seek_position 30 10 100 True) = Some 40
   \<and> \<not> success (validate_seek_position 130 10 100 False)
   \<and> error_str (validate_seek_position 130 10 100 False) \<noteq> None
   \<and> target_position (validate_seek_position 130 10 100 False) = None"
  using C9_validate_seek_position_bounds [of 30 10 100 True]
    C9_validate_seek_position_bounds [of 130 10 100 False]
  by (simp add: validate_seek_position_def seek_ok_def seek_error_def)

section \<open>Text, integers and floats: auxiliary facts\<close>

lemma strip_id:
  assumes "s \<noteq> []" "\<not> py_isspace (hd s)" "\<not> py_isspace (last s)"
  shows "strip s = s"
proof -
  have 1: "dropWhile py_isspace s = s"
    using assms(1,2) by (cases s) auto
  obtain xs x where sx: "s = xs @ [x]"
    using assms(1) by (cases s rule: rev_cases) auto
  have "\<not> py_isspace x" using assms(3) sx by simp
  then have 2: "dropWhile py_isspace (rev s) = rev s"
    by (simp add: sx)
  show ?thesis by (simp add: strip_def 1 2)
qed

lemma split_on_absent: "c \<notin> set s \<Longrightarrow> split_on c s = [s]"
  by (induction s) auto

lemma dec_value_snoc: "dec_value (xs @ [c]) = 10 * dec_value xs + digit_val c"
  by (simp add: dec_value_def)

lemma dec_value_zeros: "dec_value (xs @ replicate n CHR ''0'') = dec_value xs * 10 ^ n"
proof (induction n)
  case 0
  then show ?case by simp
next
  case (Suc n)
  have "xs @ replicate (Suc n) CHR ''0'' = (xs @ replicate n CHR ''0'') @ [CHR ''0'']"
    by (simp add: replicate_append_same)
  then show ?case
    using Suc by (simp only: dec_value_snoc) (simp add: digit_val_def)
qed

lemma bit_length_bounds:
  "0 < a \<Longrightarrow> 2 ^ (bit_length a - 1) \<le> a \<and> a < 2 ^ bit_length a"
proof (induction a rule: bit_length.induct)
  case (1 n)
  show ?case
  proof (cases "n div 2 \<le> 0")
    case True
    then have "n = 1" using "1.prems" by linarith
    then show ?thesis by (simp add: bit_length.simps)
  next
    case False
    then have pos: "0 < n div 2" by simp
    have ih: "2 ^ (bit_length (n div 2) - 1) \<le> n div 2 \<and> n div 2 < 2 ^ bit_length (n div 2)"
      using "1.IH" "1.prems" pos by simp
    have bl: "bit_length n = Suc (bit_length (n div 2))"
      using "1.prems" by (subst bit_length.simps) simp
    have blp: "0 < bit_length (n div 2)"
      using pos by (subst bit_length.simps) simp
    then obtain k where k: "bit_length (n div 2) = Suc k" by (cases "bit_length (n div 2)") auto
    have "2 * 2 ^ k \<le> 2 * (n div 2)" using ih k by simp
    also have "\<dots> \<le> n" by linarith
    finally have lo: "2 ^ (bit_length n - 1) \<le> n" using bl k by simp
    have "n < 2 * (n div 2) + 2" by linarith
    also have "\<dots> \<le> 2 * 2 ^ bit_length (n div 2)" using ih by linarith
    finally have hi: "n < 2 ^ bit_length n" using bl by simp
    show ?thesis using lo hi by blast
  qed
qed

lemma round_to_53_bits_large:
  assumes "2 ^ 1024 \<le> a"
  shows "2 ^ 1024 \<le> round_to_53_bits a"
proof -
  have pos: "0 < a" using assms by (smt (verit) zero_less_power)
  define bl where "bl = bit_length a"
  define e where "e = bl - 53"
  have b: "2 ^ (bl - 1) \<le> a" "a < 2 ^ bl"
    using bit_length_bounds [OF pos] by (simp_all add: bl_def)
  have "(2::int) ^ 1024 < 2 ^ bl" using assms b(2) by linarith
  then have bl_big: "1024 < bl" by (rule power_less_imp_less_exp [rotated]) simp
  then have ebl: "bl - 1 = 52 + e" by (simp add: e_def)
  have big: "\<not> a < 2 ^ 53"
  proof -
    have "(2::int) ^ 53 \<le> 2 ^ 1024" by (rule power_increasing) simp_all
    then show ?thesis using assms by linarith
  qed
  define q where "q = a div 2 ^ e"
  define q' where "q' = (if 2 ^ e < 2 * (a mod 2 ^ e) \<or> (2 * (a mod 2 ^ e) = 2 ^ e \<and> odd q) then q + 1 else q)"
  have r: "round_to_53_bits a = q' * 2 ^ e"
    using big by (simp add: round_to_53_bits_def Let_def q'_def q_def e_def bl_def)
  have "(2::int) ^ 52 * 2 ^ e \<le> a" using b(1) ebl by (simp add: power_add)
  then have "(2::int) ^ 52 * 2 ^ e div 2 ^ e \<le> a div 2 ^ e"
    by (rule zdiv_mono1) simp
  then have "2 ^ 52 \<le> q" by (simp add: q_def)
  then have "2 ^ 52 \<le> q'" by (simp add: q'_def)
  then have C: "(2::int) ^ 52 * 2 ^ e \<le> q' * 2 ^ e"
    by (rule mult_right_mono) simp
  have A: "(2::int) ^ 1024 \<le> 2 ^ (52 + e)"
    by (rule power_increasing) (use bl_big ebl in simp_all)
  have B: "(2::int) ^ (52 + e) = 2 ^ 52 * 2 ^ e"
    by (rule power_add)
  show ?thesis
    unfolding r by (rule order_trans [OF A]) (simp only: B C)
qed

lemma py_float_overflow:
  "2 ^ 1024 \<le> n \<Longrightarrow> py_float n = Inl (OverflowError ''int too large to convert to float'')"
proof -
  assume h: "2 ^ 1024 \<le> n"
  then have "0 \<le> n" by (smt (verit) zero_less_power)
  then have "\<bar>n\<bar> = n" by simp
  then show ?thesis using round_to_53_bits_large [OF h] by (simp add: py_float_def)
qed

lemma py_float_small: "\<bar>n\<bar> < 2 ^ 53 \<Longrightarrow> py_float n = Inr (of_int n)"
  by (cases "n < 0") (simp_all add: py_float_def round_to_53_bits_def Let_def)


section \<open>Properties of \<open>parse_seek_time\<close>\<close>

lemma not_space_digit: "is_digit c \<Longrightarrow> \<not> py_isspace c"
  by (auto simp: is_digit_def py_isspace_def Let_def)

lemma is_digit_0: "is_digit CHR ''0''" and is_digit_1: "is_digit CHR ''1''"
  by (simp_all add: is_digit_def)

lemma digit_not_special:
  "is_digit c \<Longrightarrow> c \<noteq> CHR '':'' \<and> c \<noteq> CHR ''+'' \<and> c \<noteq> CHR ''-'' \<and> c \<noteq> CHR 0x0A"
  by (auto simp: is_digit_def)

lemma before_dollar_digits:
  "s \<noteq> [] \<Longrightarrow> is_digit (last s) \<Longrightarrow> before_dollar s = s"
  using digit_not_special by (auto simp: before_dollar_def)

text \<open>A string of digits only is matched by the seconds-only pattern alone.\<close>

lemma digits_only_patterns:
  assumes "s \<noteq> []" "list_all is_digit s"
  shows "strip s = s" "TIME_RELATIVE_PATTERN s = None" "TIME_ABSOLUTE_PATTERN s = None"
    "TIME_SECONDS_ONLY_PATTERN s = Some (None, s)"
proof -
  obtain c cs where s: "s = c # cs" using assms(1) by (cases s) auto
  have hd: "is_digit (hd s)" using assms s by simp
  have la: "is_digit (last s)" using assms by (simp add: list_all_iff)
  show "strip s = s"
    using strip_id [OF assms(1)] hd la not_space_digit by blast
  have bd: "before_dollar s = s" using before_dollar_digits assms(1) la by blast
  have c: "c \<noteq> CHR ''+'' \<and> c \<noteq> CHR ''-''" using hd s digit_not_special by auto
  show "TIME_RELATIVE_PATTERN s = None"
    using c by (simp add: TIME_RELATIVE_PATTERN_def bd s [symmetric]) (simp add: s)
  have "CHR '':'' \<notin> set s"
    using assms(2) digit_not_special by (auto simp: list_all_iff)
  then have "split_on CHR '':'' s = [s]" by (rule split_on_absent)
  then show "TIME_ABSOLUTE_PATTERN s = None"
    by (simp add: TIME_ABSOLUTE_PATTERN_def bd match_hms_def)
  show "TIME_SECONDS_ONLY_PATTERN s = Some (None, s)"
    using c assms by (simp add: TIME_SECONDS_ONLY_PATTERN_def bd s [symmetric] digits_plus_def)
      (simp add: s digits_plus_def)
qed

lemma parse_seek_time_digits:
  assumes "s \<noteq> []" "list_all is_digit s" "length s \<le> 4300"
  shows "parse_seek_time s =
    except_ValueError (bnd (py_float (dec_value s)) (\<lambda>p. Inr (seek_ok p)))
      (\<lambda>e. Inr (seek_error (''Invalid seconds value: '' @ s)))"
  using assms digits_only_patterns [OF assms(1,2)]
  by (simp add: parse_seek_time_def py_int_def int_max_str_digits_def bnd_def Let_def)

text \<open>
  C8 holds that \<open>parse_seek_time\<close> never raises. The seconds-only branch converts with
  \<open>float(seconds)\<close> inside \<open>try ... except ValueError\<close>, and \<open>float\<close> raises
  \<open>OverflowError\<close> on an integer beyond the range of a double: on the input made of the
  digit 1 followed by 309 zeros the call raises instead of returning a \<open>SeekResult\<close>.
\<close>

theorem C8_parse_seek_time_overflow:
  "parse_seek_time (CHR ''1'' # replicate 309 CHR ''0'')
     = Inl (OverflowError ''int too large to convert to float'')"
proof -
  let ?s = "CHR ''1'' # replicate 309 CHR ''0''"
  have d: "list_all is_digit ?s"
    using is_digit_0 is_digit_1 by (simp add: list_all_iff)
  have v: "dec_value ?s = 10 ^ 309"
    using dec_value_zeros [of "[CHR ''1'']" 309] by (simp add: dec_value_def digit_val_def)
  have "(2::int) ^ 1024 \<le> 10 ^ 309" by simp
  then have f: "py_float (10 ^ 309) = Inl (OverflowError ''int too large to convert to float'')"
    by (rule py_float_overflow)
  have "parse_seek_time ?s =
    except_ValueError (bnd (py_float (dec_value ?s)) (\<lambda>p. Inr (seek_ok p)))
      (\<lambda>e. Inr (seek_error (''Invalid seconds value: '' @ ?s)))"
    by (rule parse_seek_time_digits) (use d in simp_all)
  then show ?thesis
    by (simp only: v f) (simp add: bnd_def except_ValueError_def)
qed


subsection \<open>Parsing what \<open>format_time\<close> prints\<close>

lemma digit_val_range: "is_digit c \<Longrightarrow> 0 \<le> digit_val c \<and> digit_val c \<le> 9"
  by (auto simp: is_digit_def digit_val_def)

lemma py_int_two:
  "is_digit a \<Longrightarrow> is_digit b \<Longrightarrow> py_int [a, b] = Inr (10 * digit_val a + digit_val b)"
  by (simp add: py_int_def int_max_str_digits_def dec_value_def)

lemma split_hms:
  assumes "is_digit a" "is_digit b" "is_digit c" "is_digit d" "is_digit e" "is_digit f"
  shows "split_on CHR '':'' [a, b, CHR '':'', c, d, CHR '':'', e, f] = [[a, b], [c, d], [e, f]]"
    and "split_on CHR '':'' [c, d, CHR '':'', e, f] = [[c, d], [e, f]]"
  using assms digit_not_special by simp_all

lemma components_ok:
  assumes "0 \<le> h" "h \<le> 99" "0 \<le> m" "m < 60" "0 \<le> s" "s < 60"
  shows "py_float (h * 3600 + m * 60 + s) = Inr (of_int (h * 3600 + m * 60 + s))"
proof (rule py_float_small)
  have "\<bar>h * 3600 + m * 60 + s\<bar> \<le> 99 * 3600 + 60 * 60 + 60" using assms by simp
  also have "\<dots> < (2::int) ^ 53" by simp
  finally show "\<bar>h * 3600 + m * 60 + s\<bar> < 2 ^ 53" .
qed

lemma parse_hms:
  assumes dg: "is_digit a" "is_digit b" "is_digit c" "is_digit d" "is_digit e" "is_digit f"
    and m: "10 * digit_val c + digit_val d < 60" and s: "10 * digit_val e + digit_val f < 60"
  shows "parse_seek_time [a, b, CHR '':'', c, d, CHR '':'', e, f] =
    Inr (seek_ok (of_int ((10 * digit_val a + digit_val b) * 3600
        + (10 * digit_val c + digit_val d) * 60 + (10 * digit_val e + digit_val f))))"
proof -
  let ?t = "[a, b, CHR '':'', c, d, CHR '':'', e, f]"
  have st: "strip ?t = ?t"
    by (rule strip_id) (use dg not_space_digit in simp_all)
  have bd: "before_dollar ?t = ?t"
    by (rule before_dollar_digits) (use dg in simp_all)
  have rel: "TIME_RELATIVE_PATTERN ?t = None"
    using digit_not_special [OF dg(1)] by (simp add: TIME_RELATIVE_PATTERN_def bd)
  have ab: "TIME_ABSOLUTE_PATTERN ?t = Some (Some [a, b], [c, d], [e, f])"
    unfolding TIME_ABSOLUTE_PATTERN_def bd match_hms_def split_hms(1) [OF dg]
    using dg by (simp add: digits_1_2_def digits_2_def)
  have r: "0 \<le> 10 * digit_val a + digit_val b" "10 * digit_val a + digit_val b \<le> 99"
    "0 \<le> 10 * digit_val c + digit_val d" "0 \<le> 10 * digit_val e + digit_val f"
    using digit_val_range dg by (smt (verit))+
  have pc: "parse_time_components None (Some [a, b]) [c, d] [e, f] False =
    Inr (seek_ok (of_int ((10 * digit_val a + digit_val b) * 3600
        + (10 * digit_val c + digit_val d) * 60 + (10 * digit_val e + digit_val f))))"
    using m s r components_ok [OF r(1,2) r(3) m r(4) s]
    by (simp add: parse_time_components_def py_int_two dg bnd_def except_ValueError_def Let_def)
  show ?thesis
    by (simp add: parse_seek_time_def st rel ab pc Let_def del: of_int_add of_int_mult)
qed

lemma parse_ms:
  assumes dg: "is_digit c" "is_digit d" "is_digit e" "is_digit f"
    and m: "10 * digit_val c + digit_val d < 60" and s: "10 * digit_val e + digit_val f < 60"
  shows "parse_seek_time [c, d, CHR '':'', e, f] =
    Inr (seek_ok (of_int ((10 * digit_val c + digit_val d) * 60 + (10 * digit_val e + digit_val f))))"
proof -
  let ?t = "[c, d, CHR '':'', e, f]"
  have st: "strip ?t = ?t"
    by (rule strip_id) (use dg not_space_digit in simp_all)
  have bd: "before_dollar ?t = ?t"
    by (rule before_dollar_digits) (use dg in simp_all)
  have rel: "TIME_RELATIVE_PATTERN ?t = None"
    using digit_not_special [OF dg(1)] by (simp add: TIME_RELATIVE_PATTERN_def bd)
  have ab: "TIME_ABSOLUTE_PATTERN ?t = Some (None, [c, d], [e, f])"
    unfolding TIME_ABSOLUTE_PATTERN_def bd match_hms_def split_hms(2) [OF dg(1) dg(1) dg]
    using dg by (simp add: digits_1_2_def digits_2_def)
  have r: "0 \<le> 10 * digit_val c + digit_val d" "0 \<le> 10 * digit_val e + digit_val f"
    using digit_val_range dg by (smt (verit))+
  have pc: "parse_time_components None None [c, d] [e, f] False =
    Inr (seek_ok (of_int ((10 * digit_val c + digit_val d) * 60 + (10 * digit_val e + digit_val f))))"
    using m s r components_ok [of 0, OF _ _ r(1) m r(2) s]
    by (simp add: parse_time_components_def py_int_two dg bnd_def except_ValueError_def Let_def)
  show ?thesis
    by (simp add: parse_seek_time_def st rel ab pc Let_def del: of_int_add of_int_mult)
qed

lemma digit_char_digit:
  assumes "d < 10"
  shows "is_digit (digit_char d)" "digit_val (digit_char d) = int d"
proof -
  have "(of_char (digit_char d) :: nat) = 48 + d"
    using assms by (simp add: digit_char_def)
  then show "is_digit (digit_char d)" "digit_val (digit_char d) = int d"
    using assms by (simp_all add: is_digit_def digit_val_def)
qed

lemma char_of_48: "char_of (48::nat) = CHR ''0''"
  by (simp add: of_char_eq_iff [where ?'a = nat, symmetric])

lemma two_digits: "10 * int (k div 10) + int (k mod 10) = int k"
  by (metis mult_div_mod_eq of_nat_add of_nat_mult of_nat_numeral)

lemma fmt_02d_two:
  assumes "n < 100"
  shows "fmt_02d (int n) = [digit_char (n div 10), digit_char (n mod 10)]"
proof (cases "n < 10")
  case True
  then have "str_nat n = [digit_char n]" by (subst str_nat.simps) simp
  then show ?thesis using True by (simp add: fmt_02d_def str_int_def digit_char_def char_of_48)
next
  case False
  then have "n div 10 < 10" using assms by simp
  then have "str_nat (n div 10) = [digit_char (n div 10)]" by (subst str_nat.simps) simp
  then have "str_nat n = [digit_char (n div 10), digit_char (n mod 10)]"
    using False by (subst str_nat.simps) simp
  then show ?thesis by (simp add: fmt_02d_def str_int_def)
qed

lemma floordiv_nat: "0 < m \<Longrightarrow> \<lfloor>py_floordiv (real n) (real m)\<rfloor> = int (n div m)"
  using floor_divide_of_nat_eq [of n m, where ?'a = real] by (simp add: py_floordiv_def)

lemma mod_nat: "0 < m \<Longrightarrow> py_mod (real n) (real m) = real (n mod m)"
proof -
  assume "0 < m"
  have "\<lfloor>real n / real m\<rfloor> = int (n div m)"
    using floor_divide_of_nat_eq [of n m, where ?'a = real] by simp
  then have "py_mod (real n) (real m) = real n - real m * real (n div m)"
    by (simp add: py_mod_def)
  also have "\<dots> = real (n mod m)"
    by (metis add_diff_cancel_left' mult_div_mod_eq of_nat_add of_nat_mult)
  finally show ?thesis .
qed

lemma format_time_nat:
  "format_time (real n) =
     (if 0 < n div 3600
      then fmt_02d (int (n div 3600)) @ '':'' @ fmt_02d (int (n mod 3600 div 60)) @ '':''
           @ fmt_02d (int (n mod 60))
      else fmt_02d (int (n mod 3600 div 60)) @ '':'' @ fmt_02d (int (n mod 60)))"
proof -
  have h: "\<lfloor>py_floordiv (real n) 3600\<rfloor> = int (n div 3600)"
    using floordiv_nat [of 3600 n] by simp
  have m1: "py_mod (real n) 3600 = real (n mod 3600)"
    using mod_nat [of 3600 n] by simp
  have m: "\<lfloor>py_floordiv (py_mod (real n) 3600) 60\<rfloor> = int (n mod 3600 div 60)"
    unfolding m1 using floordiv_nat [of 60 "n mod 3600"] by simp
  have s: "\<lfloor>py_mod (real n) 60\<rfloor> = int (n mod 60)"
    using mod_nat [of 60 n] by simp
  show ?thesis
    unfolding format_time_def format_time_nonneg_def h m s Let_def by simp
qed

text \<open>
  The round trip of C8: for every whole number of seconds below 100 hours,
  \<open>parse_seek_time (format_time s)\<close> succeeds with the position \<open>float(s)\<close>.
\<close>

theorem seek_time_roundtrip:
  assumes "n < 360000"
  shows "parse_seek_time (format_time (real n)) = Inr (seek_ok (real n))"
proof -
  define h where "h = n div 3600"
  define m where "m = n mod 3600 div 60"
  define s where "s = n mod 60"
  have "n < 100 * 3600" using assms by simp
  then have bh: "h < 100" unfolding h_def by (rule less_mult_imp_div_less)
  have "n mod 3600 < 60 * 60" by simp
  then have bm: "m < 60" unfolding m_def by (rule less_mult_imp_div_less)
  have bs: "s < 60" by (simp add: s_def)
  note b = bh bm bs
  have b100: "m < 100" "s < 100" using bm bs by simp_all
  have "n mod 3600 mod 60 = n mod 60" by (simp add: mod_mod_cancel)
  then have "n mod 3600 = m * 60 + s"
    unfolding m_def s_def using div_mult_mod_eq [of "n mod 3600" 60] by simp
  then have n: "n = h * 3600 + m * 60 + s"
    unfolding h_def using div_mult_mod_eq [of n 3600] by simp
  have d10: "h div 10 < 10" "m div 10 < 10" "s div 10 < 10" "h mod 10 < 10" "m mod 10 < 10"
    "s mod 10 < 10"
    using b by simp_all
  note dg = d10 [THEN digit_char_digit(1)]
  note dv = d10 [THEN digit_char_digit(2)]
  have vm: "10 * digit_val (digit_char (m div 10)) + digit_val (digit_char (m mod 10)) = int m"
    and vs: "10 * digit_val (digit_char (s div 10)) + digit_val (digit_char (s mod 10)) = int s"
    and vh: "10 * digit_val (digit_char (h div 10)) + digit_val (digit_char (h mod 10)) = int h"
    unfolding dv by (rule two_digits)+
  have f: "format_time (real n) =
     (if 0 < h
      then [digit_char (h div 10), digit_char (h mod 10), CHR '':'',
            digit_char (m div 10), digit_char (m mod 10), CHR '':'',
            digit_char (s div 10), digit_char (s mod 10)]
      else [digit_char (m div 10), digit_char (m mod 10), CHR '':'',
            digit_char (s div 10), digit_char (s mod 10)])"
    unfolding format_time_nat h_def [symmetric] m_def [symmetric] s_def [symmetric]
      fmt_02d_two [OF b(1)] fmt_02d_two [OF b100(1)] fmt_02d_two [OF b100(2)]
    by simp
  show ?thesis
  proof (cases "0 < h")
    case True
    have "parse_seek_time (format_time (real n)) =
        Inr (seek_ok (of_int (int h * 3600 + int m * 60 + int s)))"
      unfolding f using True
        parse_hms [OF dg(1) dg(4) dg(2) dg(5) dg(3) dg(6)] b
      by (simp only: vm vs vh if_True)
    then show ?thesis by (simp add: n)
  next
    case False
    then have h0: "h = 0" by simp
    have "parse_seek_time (format_time (real n)) = Inr (seek_ok (of_int (int m * 60 + int s)))"
      unfolding f using False
        parse_ms [OF dg(2) dg(5) dg(3) dg(6)] b
      by (simp only: vm vs if_False)
    then show ?thesis by (simp add: n h0)
  qed
qed


section \<open>Properties of the playback timing\<close>

lemma dict_get_set: "dict_get (dict_set k v d) k' = (if k' = k then Some v else dict_get d k')"
  by (simp add: dict_get_def dict_set_def update_conv')

lemma dict_get_del: "dict_get (dict_del k d) k' = (if k' = k then None else dict_get d k')"
  by (simp add: dict_get_def dict_del_def delete_conv')

lemma dict_in_get: "dict_in k d \<longleftrightarrow> dict_get d k \<noteq> None"
  by (simp add: dict_in_def dict_get_def map_of_eq_None_iff)

lemma seek_timing_fields:
  "dict_get (playback_start_times (update_timing_after_seek p g t now)) g = Some (now - t)"
  "dict_get (total_paused_duration (update_timing_after_seek p g t now)) g = Some 0"
  "dict_get (playback_paused_times (update_timing_after_seek p g t now)) g = None"
  by (auto simp: update_timing_after_seek_def Let_def dict_get_set dict_get_del dict_in_get)

lemma position_after_seek:
  "get_current_playback_position (update_timing_after_seek p g t now) g later
     = Some (max 0 (t + (later - now)))"
  by (simp add: get_current_playback_position_def seek_timing_fields Let_def algebra_simps)

text \<open>
  The position read back is clamped at zero, so it is the target of the seek when that
  target is not negative.
\<close>

lemma position_after_nonneg_seek:
  "0 \<le> t \<Longrightarrow>
     get_current_playback_position (update_timing_after_seek p g t now) g now = Some t
     \<and> (now \<le> later \<longrightarrow>
          get_current_playback_position (update_timing_after_seek p g t now) g later
            = Some (t + (later - now)))"
  by (simp add: position_after_seek)

text \<open>
  The one caller of \<open>_update_timing_after_seek\<close>, \<open>_perform_seek\<close>, is handed the
  \<open>target_position\<close> of a result of \<open>validate_seek_position\<close> that \<open>seek_to_position\<close> has
  found successful. Such a position is not negative.
\<close>

lemma validated_position_nonneg:
  "target_position (validate_seek_position target current duration rel) = Some t \<Longrightarrow> 0 \<le> t"
  by (auto simp: validate_seek_position_def seek_ok_def seek_error_def Let_def split: if_splits)

text \<open>
  C4: for every guild and every target position \<open>t\<close> of a seek (a position that
  \<open>validate_seek_position\<close> returned), right after \<open>_update_timing_after_seek(guild_id, t)\<close>
  the position read at the same instant is \<open>t\<close>, and at any later instant, the timing
  state being the one the seek left (no pause since), it is \<open>t\<close> plus the time elapsed
  since the seek.
\<close>

theorem C4_position_after_seek:
  "target_position (validate_seek_position target current duration rel) = Some t \<Longrightarrow>
     get_current_playback_position (update_timing_after_seek p g t now) g now = Some t
     \<and> (now \<le> later \<longrightarrow>
          get_current_playback_position (update_timing_after_seek p g t now) g later
            = Some (t + (later - now)))"
  using validated_position_nonneg [of target current duration rel t]
    position_after_nonneg_seek [of t p g now later]
  by blast

theorem C4_position_after_seek_witness:
  "target_position (validate_seek_position 30 10 100 True) = Some 40
   \<and> get_current_playback_position
       (update_timing_after_seek (init_player None :: unit MusicPlayer) 7 40 1000) 7 1000 = Some 40
   \<and> get_current_playback_position
       (update_timing_after_seek (init_player None :: unit MusicPlayer) 7 40 1000) 7 1012 = Some 52"
  using C4_position_after_seek
    [of 30 10 100 True 40 "init_player None :: unit MusicPlayer" 7 1000 1012]
  by (simp add: validate_seek_position_def seek_ok_def)


section \<open>Properties of \<open>_make_head_request_with_retry\<close>\<close>

lemma client_error_cases:
  "client_error outcome \<longleftrightarrow> (\<exists>m. outcome = Inl (ClientError m))"
  by (auto simp: client_error_def split: sum.splits exn.splits)

text \<open>All remaining attempts fail.\<close>

lemma retry_all_fail:
  assumes "\<forall>a. i \<le> a \<and> a \<le> n \<longrightarrow> client_error (head a)" "i \<le> n"
  shows "retry_attempts head n [i..<Suc n] = (failed_attempts i (n - i) @ [Head n], Inr None)"
  using assms
proof (induction "n - i" arbitrary: i)
  case 0
  then have "i = n" by simp
  moreover obtain m where "head n = Inl (ClientError m)"
    using 0 client_error_cases [of "head n"] by auto
  ultimately show ?case
    by (simp add: failed_attempts_def)
next
  case (Suc k)
  then have lt: "i < n" by simp
  obtain m where m: "head i = Inl (ClientError m)"
    using Suc.prems client_error_cases [of "head i"] by auto
  have ih: "retry_attempts head n [Suc i..<Suc n]
      = (failed_attempts (Suc i) (n - Suc i) @ [Head n], Inr None)"
    using Suc.hyps(1) [of "Suc i"] Suc.hyps(2) Suc.prems lt by (simp del: upt_Suc)
  have up: "[i..<Suc n] = i # [Suc i..<Suc n]"
    using lt by (simp add: upt_conv_Cons)
  have fa: "failed_attempts i (n - i) = Head i # Sleep (2 ^ i) # failed_attempts (Suc i) (n - Suc i)"
    using lt by (simp add: failed_attempts_def upt_conv_Cons)
  show ?case
    by (simp add: up m ih lt fa del: upt_Suc)
qed

text \<open>The first attempt that does not raise a client error ends the loop.\<close>

lemma retry_first_other:
  assumes "\<forall>a. i \<le> a \<and> a < j \<longrightarrow> client_error (head a)" "\<not> client_error (head j)"
    "i \<le> j" "j \<le> n"
  shows "retry_attempts head n [i..<Suc n]
     = (failed_attempts i (j - i) @ [Head j],
        case head j of Inr r \<Rightarrow> Inr (Some r) | Inl e \<Rightarrow> Inl e)"
  using assms
proof (induction "j - i" arbitrary: i)
  case 0
  then have ij: "i = j" by simp
  have up: "[j..<Suc n] = j # [Suc j..<Suc n]"
    using 0 by (simp add: upt_conv_Cons)
  show ?case
    using 0(3)
    by (auto simp del: upt_Suc simp add: ij up failed_attempts_def client_error_def
        split: sum.splits exn.splits)
next
  case (Suc k)
  then have lt: "i < j" by simp
  then have ltn: "i < n" using Suc.prems by simp
  obtain m where m: "head i = Inl (ClientError m)"
    using Suc.prems lt client_error_cases [of "head i"] by auto
  have ih: "retry_attempts head n [Suc i..<Suc n]
      = (failed_attempts (Suc i) (j - Suc i) @ [Head j],
        case head j of Inr r \<Rightarrow> Inr (Some r) | Inl e \<Rightarrow> Inl e)"
    using Suc.hyps(1) [of "Suc i"] Suc.hyps(2) Suc.prems lt by (simp del: upt_Suc)
  have up: "[i..<Suc n] = i # [Suc i..<Suc n]"
    using ltn by (simp add: upt_conv_Cons)
  have fa: "failed_attempts i (j - i) = Head i # Sleep (2 ^ i) # failed_attempts (Suc i) (j - Suc i)"
    using lt by (simp add: failed_attempts_def upt_conv_Cons)
  show ?case
    by (simp add: up m ih ltn fa del: upt_Suc)
qed

lemma attempts_failed: "attempts (failed_attempts i k @ [Head j]) = Suc k"
proof -
  have "attempts (failed_attempts i k) = k"
    unfolding failed_attempts_def attempts_def
    by (induction k) simp_all
  then show ?thesis by (simp add: attempts_def)
qed

lemma retry_result:
  "attempts (fst (make_head_request_with_retry head n)) \<le> n + 1
   \<and> (snd (make_head_request_with_retry head n) = Inr None
        \<longleftrightarrow> (\<forall>a. a \<le> n \<longrightarrow> client_error (head a)))"
proof (cases "\<forall>a. a \<le> n \<longrightarrow> client_error (head a)")
  case True
  then have "make_head_request_with_retry head n = (failed_attempts 0 (n - 0) @ [Head n], Inr None)"
    unfolding make_head_request_with_retry_def using retry_all_fail [of 0 n head] by simp
  then show ?thesis using True attempts_failed [of 0 n n] by simp
next
  case False
  define j where "j = (LEAST a. a \<le> n \<and> \<not> client_error (head a))"
  have ex: "\<exists>a. a \<le> n \<and> \<not> client_error (head a)" using False by blast
  have j: "j \<le> n \<and> \<not> client_error (head j)"
    unfolding j_def using ex by (rule LeastI_ex)
  have before: "client_error (head a)" if "a < j" for a
  proof (rule ccontr)
    assume "\<not> client_error (head a)"
    then have "a \<le> n \<and> \<not> client_error (head a)" using that j by simp
    then have "j \<le> a" unfolding j_def by (rule Least_le)
    then show False using that by simp
  qed
  have r: "make_head_request_with_retry head n
     = (failed_attempts 0 (j - 0) @ [Head j],
        case head j of Inr r \<Rightarrow> Inr (Some r) | Inl e \<Rightarrow> Inl e)"
    unfolding make_head_request_with_retry_def
    using retry_first_other [of 0 j head n] before j by simp
  have "snd (make_head_request_with_retry head n) \<noteq> Inr None"
    unfolding r by (simp split: sum.splits)
  moreover have "attempts (fst (make_head_request_with_retry head n)) = Suc j"
    unfolding r using attempts_failed [of 0 j j] by simp
  ultimately show ?thesis using False j by simp
qed

text \<open>
  C2, amended: for any URL, \<open>_make_head_request_with_retry\<close> makes at most
  \<open>max_retries + 1\<close> attempts (three with the default \<open>max_retries = 2\<close>), stops at the
  first attempt that does not raise a client error (returning its response or letting its
  exception pass), waits \<open>2 ^ attempt\<close> seconds after a failed attempt that is not the
  last, and returns \<open>None\<close> exactly when every attempt raises a client error.
\<close>

theorem C2_head_request_retry:
  "attempts (fst (make_head_request_with_retry head n)) \<le> n + 1
   \<and> (snd (make_head_request_with_retry head n) = Inr None
        \<longleftrightarrow> (\<forall>a. a \<le> n \<longrightarrow> client_error (head a)))
   \<and> ((\<forall>a. a \<le> n \<longrightarrow> client_error (head a)) \<longrightarrow>
        fst (make_head_request_with_retry head n) = failed_attempts 0 n @ [Head n])
   \<and> (\<forall>j. j \<le> n \<and> \<not> client_error (head j) \<and> (\<forall>a. a < j \<longrightarrow> client_error (head a)) \<longrightarrow>
        make_head_request_with_retry head n
          = (failed_attempts 0 j @ [Head j],
             case head j of Inr r \<Rightarrow> Inr (Some r) | Inl e \<Rightarrow> Inl e))"
proof -
  have c: "fst (make_head_request_with_retry head n) = failed_attempts 0 n @ [Head n]"
    if "\<forall>a. a \<le> n \<longrightarrow> client_error (head a)"
    unfolding make_head_request_with_retry_def using retry_all_fail [of 0 n head] that by simp
  have d: "make_head_request_with_retry head n
          = (failed_attempts 0 j @ [Head j],
             case head j of Inr r \<Rightarrow> Inr (Some r) | Inl e \<Rightarrow> Inl e)"
    if "j \<le> n \<and> \<not> client_error (head j) \<and> (\<forall>a. a < j \<longrightarrow> client_error (head a))" for j
    unfolding make_head_request_with_retry_def using retry_first_other [of 0 j head n] that by simp
  show ?thesis using retry_result [of head n] c d by blast
qed

text \<open>
  C2, as stated, holds that two attempts are made in total. With the default
  \<open>max_retries = 2\<close> the loop runs over \<open>range(3)\<close>: when every attempt raises a client
  error there are three requests, with waits of 1 and 2 seconds between them.
\<close>

theorem C2_three_attempts_counterexample:
  "fst (make_head_request_with_retry (\<lambda>a. Inl (ClientError ''Server disconnected'') :: exn + unit)
          default_max_retries)
     = [Head 0, Sleep 1, Head 1, Sleep 2, Head 2]
   \<and> attempts (fst (make_head_request_with_retry
          (\<lambda>a. Inl (ClientError ''Server disconnected'') :: exn + unit) default_max_retries)) \<noteq> 2"
  by (simp add: make_head_request_with_retry_def default_max_retries_def attempts_def
      upt_conv_Cons del: upt_Suc)

theorem C2_head_request_retry_witness:
  "attempts (fst (make_head_request_with_retry
       (\<lambda>a. if a = 1 then Inr () else Inl (ClientError ''Server disconnected''))
       default_max_retries)) \<le> 3
   \<and> make_head_request_with_retry
       (\<lambda>a. if a = 1 then Inr () else Inl (ClientError ''Server disconnected''))
       default_max_retries = ([Head 0, Sleep 1, Head 1], Inr (Some ()))
   \<and> make_head_request_with_retry (\<lambda>a. Inl (ClientError ''Server disconnected'') :: exn + unit)
       default_max_retries = ([Head 0, Sleep 1, Head 1, Sleep 2, Head 2], Inr None)"
  using C2_head_request_retry [of "\<lambda>a. if a = 1 then Inr () else Inl (ClientError ''Server disconnected'')"
      default_max_retries]
    C2_head_request_retry [of "\<lambda>a. Inl (ClientError ''Server disconnected'') :: exn + unit" default_max_retries]
  by (simp add: make_head_request_with_retry_def default_max_retries_def attempts_def
      upt_conv_Cons del: upt_Suc)


section \<open>Properties of the per-guild maps\<close>

lemma one_entry_set: "one_entry_per_key d \<Longrightarrow> one_entry_per_key (dict_set k v d)"
  by (simp add: one_entry_per_key_def dict_set_def distinct_update)

lemma one_entry_del: "one_entry_per_key d \<Longrightarrow> one_entry_per_key (dict_del k d)"
  by (simp add: one_entry_per_key_def dict_del_def distinct_delete)

lemma entries_le_1: "one_entry_per_key d \<Longrightarrow> entries k d \<le> 1"
  unfolding one_entry_per_key_def entries_def
proof (induction d)
  case Nil
  then show ?case by simp
next
  case (Cons e d)
  have "filter (\<lambda>x. fst x = k) d = []" if "fst e = k"
  proof -
    have "k \<notin> fst ` set d" using that Cons.prems by simp
    then have "\<forall>x \<in> set d. fst x \<noteq> k" by (metis imageI)
    then show ?thesis by (simp add: filter_empty_conv)
  qed
  then show ?case using Cons by auto
qed

lemma entries_dict_in: "dict_in k d \<longleftrightarrow> 0 < entries k d"
  by (auto simp: dict_in_def entries_def filter_empty_conv)

lemma dict_in_set: "dict_in k' (dict_set k v d) \<longleftrightarrow> k' = k \<or> dict_in k' d"
  by (auto simp: dict_in_get dict_get_set)

lemma dict_in_del: "dict_in k' (dict_del k d) \<longleftrightarrow> k' \<noteq> k \<and> dict_in k' d"
  by (auto simp: dict_in_get dict_get_del)

lemma snd_set_subset: "set (map snd (dict_set k v d)) \<subseteq> insert v (set (map snd d))"
  unfolding dict_set_def by (induction d) auto

lemma snd_del_subset: "set (map snd (dict_del k d)) \<subseteq> set (map snd d)"
  unfolding dict_del_def by (induction d) auto

lemma dict_get_snd: "dict_get d k = Some v \<Longrightarrow> v \<in> set (map snd d)"
  unfolding dict_get_def by (metis map_of_SomeD set_zip_rightD zip_map_fst_snd)

lemma handles_known_iff:
  "handles_known p \<longleftrightarrow>
     (\<forall>t \<in> set (map snd (playback_tasks p)) \<union> set (map snd (inactivity_timers p))
           \<union> set (tasks_cancelled p). t < length (tasks_created p))"
  by (auto simp: handles_known_def list_all_iff)

text \<open>The timing functions leave the tasks, the timers and the audio files alone.\<close>

lemma timing_frame:
  "same_but_timing (start_playback_timing p g now) p"
  "same_but_timing (pause_playback_timing p g now) p"
  "same_but_timing (resume_playback_timing p g now) p"
  "same_but_timing (stop_playback_timing p g) p"
  "same_but_timing (update_timing_after_seek p g t now) p"
  by (simp_all add: same_but_timing_def start_playback_timing_def pause_playback_timing_def
      resume_playback_timing_def stop_playback_timing_def update_timing_after_seek_def Let_def
      split: option.splits)

lemma tasks_inv_cong:
  "playback_tasks f = playback_tasks p \<Longrightarrow> inactivity_timers f = inactivity_timers p \<Longrightarrow>
   tasks_created f = tasks_created p \<Longrightarrow> tasks_cancelled f = tasks_cancelled p \<Longrightarrow>
   tasks_inv f = tasks_inv p"
  by (simp add: tasks_inv_def handles_known_def)

lemma tasks_inv_same: "same_but_timing f p \<Longrightarrow> tasks_inv f = tasks_inv p"
  by (simp add: tasks_inv_def handles_known_def same_but_timing_def)

lemma cleanup_audio_frame:
  "playback_tasks (cleanup_current_audio p g) = playback_tasks p
   \<and> inactivity_timers (cleanup_current_audio p g) = inactivity_timers p
   \<and> tasks_created (cleanup_current_audio p g) = tasks_created p
   \<and> tasks_cancelled (cleanup_current_audio p g) = tasks_cancelled p
   \<and> voice_disconnects (cleanup_current_audio p g) = voice_disconnects p
   \<and> config (cleanup_current_audio p g) = config p"
  by (simp add: cleanup_current_audio_def Let_def split: option.splits)

lemma tasks_inv_cleanup_audio: "tasks_inv (cleanup_current_audio p g) = tasks_inv p"
  by (rule tasks_inv_cong) (simp_all add: cleanup_audio_frame)

lemma la_del: "list_all P (map snd d) \<Longrightarrow> list_all P (map snd (dict_del k d))"
  unfolding dict_del_def by (induction d) auto

lemma la_set: "list_all P (map snd d) \<Longrightarrow> P v \<Longrightarrow> list_all P (map snd (dict_set k v d))"
  unfolding dict_set_def by (induction d) auto

lemma la_get: "list_all P (map snd d) \<Longrightarrow> dict_get d k = Some v \<Longrightarrow> P v"
  using dict_get_snd [of d k v] by (auto simp: list_all_iff)

lemma la_mono: "list_all (\<lambda>t. t < n) xs \<Longrightarrow> list_all (\<lambda>t. t < Suc n) xs"
  by (auto simp: list_all_iff)

lemma tasks_inv_stop_timer: "tasks_inv p \<Longrightarrow> tasks_inv (stop_inactivity_timer p g)"
  by (auto simp: tasks_inv_def handles_known_def stop_inactivity_timer_def cancel_task_def
      one_entry_del la_del split: option.splits dest: la_get)

lemma tasks_inv_reset_timer: "tasks_inv p \<Longrightarrow> tasks_inv (reset_inactivity_timer p g now)"
  by (auto simp: tasks_inv_def handles_known_def reset_inactivity_timer_def cancel_task_def
      Let_def one_entry_del la_del split: option.splits dest: la_get)

lemma tasks_inv_start_timer: "tasks_inv p \<Longrightarrow> tasks_inv (start_inactivity_timer p g)"
  by (auto simp: tasks_inv_def handles_known_def start_inactivity_timer_def cancel_task_def
      create_task_def Let_def one_entry_set la_set la_mono
      split: option.splits dest: la_get)

lemma tasks_inv_register_playback:
  "tasks_inv q \<Longrightarrow>
   tasks_inv (q\<lparr>tasks_created := tasks_created q @ [c],
                playback_tasks := dict_set g (length (tasks_created q)) (playback_tasks q)\<rparr>)"
  by (auto simp: tasks_inv_def handles_known_def one_entry_set la_set la_mono)

lemma tasks_inv_start_playback: "tasks_inv p \<Longrightarrow> tasks_inv (start_playback p g now)"
proof (cases "dict_in g (playback_tasks p)")
  case True
  assume "tasks_inv p"
  then show ?thesis using True by (simp add: start_playback_def)
next
  case False
  assume "tasks_inv p"
  then have "tasks_inv (reset_inactivity_timer p g now)" by (rule tasks_inv_reset_timer)
  then show ?thesis
    using False tasks_inv_register_playback
      [where q = "reset_inactivity_timer p g now" and c = "PlaybackLoop g" and g = g]
    by (simp add: start_playback_def Let_def create_task_def)
qed

lemma tasks_inv_timing:
  "tasks_inv (start_playback_timing p g now) = tasks_inv p"
  "tasks_inv (pause_playback_timing p g now) = tasks_inv p"
  "tasks_inv (resume_playback_timing p g now) = tasks_inv p"
  "tasks_inv (stop_playback_timing p g) = tasks_inv p"
  "tasks_inv (update_timing_after_seek p g t now) = tasks_inv p"
  by (rule tasks_inv_same, rule timing_frame)+

lemma tasks_inv_cleanup_guild: "tasks_inv p \<Longrightarrow> tasks_inv (cleanup_guild_state p g)"
proof -
  assume i: "tasks_inv p"
  define p1 where "p1 = (case dict_get (playback_tasks p) g of
                 None \<Rightarrow> p
               | Some task \<Rightarrow>
                   (cancel_task task p)\<lparr>playback_tasks := dict_del g (playback_tasks p)\<rparr>)"
  have 1: "tasks_inv p1"
    using i by (auto simp: p1_def tasks_inv_def handles_known_def cancel_task_def one_entry_del
        la_del split: option.splits dest: la_get)
  have 2: "tasks_inv (stop_inactivity_timer
      (stop_playback_timing (cleanup_current_audio p1 g) g) g)"
    using 1 by (simp add: tasks_inv_stop_timer tasks_inv_timing tasks_inv_cleanup_audio)
  have 3: "tasks_inv (q\<lparr>last_activity_times := x\<rparr>) = tasks_inv q" for q :: "'a MusicPlayer" and x
    by (simp add: tasks_inv_def handles_known_def)
  show ?thesis
    using 2 by (simp add: cleanup_guild_state_def Let_def p1_def [symmetric] 3)
qed

lemma tasks_inv_loop_finally: "tasks_inv p \<Longrightarrow> tasks_inv (playback_loop_finally p g)"
proof -
  assume i: "tasks_inv p"
  then have "tasks_inv (p\<lparr>playback_tasks := dict_del g (playback_tasks p)\<rparr>)"
    by (simp add: tasks_inv_def handles_known_def one_entry_del la_del)
  then show ?thesis
    using i by (simp add: playback_loop_finally_def Let_def tasks_inv_cleanup_audio)
qed

lemma tasks_inv_timer_finally: "tasks_inv p \<Longrightarrow> tasks_inv (inactivity_timer_finally p g)"
  by (simp add: inactivity_timer_finally_def tasks_inv_def handles_known_def one_entry_del la_del)

lemma tasks_inv_song_ready: "tasks_inv (playback_loop_song_ready p g path played now) = tasks_inv p"
proof -
  have 3: "tasks_inv (q\<lparr>current_audio_files := x\<rparr>) = tasks_inv q" for q :: "'a MusicPlayer" and x
    by (simp add: tasks_inv_def handles_known_def)
  show ?thesis
    by (simp add: playback_loop_song_ready_def Let_def tasks_inv_cleanup_audio tasks_inv_timing 3
        split: option.splits)
qed

lemma tasks_inv_timer_task:
  "tasks_inv p \<Longrightarrow> tasks_inv (inactivity_timer_task p g outcome c pl)"
proof -
  assume i: "tasks_inv p"
  have 3: "tasks_inv (q\<lparr>voice_disconnects := x\<rparr>) = tasks_inv q" for q :: "'a MusicPlayer" and x
    by (simp add: tasks_inv_def handles_known_def)
  show ?thesis
    using i by (simp add: inactivity_timer_task_def Let_def 3 tasks_inv_timer_finally
        tasks_inv_cleanup_guild split: sleep_outcome.splits)
qed

lemma tasks_inv_apply_op: "tasks_inv p \<Longrightarrow> tasks_inv (apply_op op p)"
  by (cases op)
    (simp_all add: tasks_inv_start_playback tasks_inv_reset_timer tasks_inv_start_timer
      tasks_inv_stop_timer tasks_inv_cleanup_audio tasks_inv_cleanup_guild tasks_inv_timing
      tasks_inv_loop_finally tasks_inv_song_ready tasks_inv_timer_task
      playback_loop_no_more_songs_def playback_loop_song_finished_def)

lemma tasks_inv_apply_ops: "tasks_inv p \<Longrightarrow> tasks_inv (apply_ops ops p)"
  by (induction ops arbitrary: p) (simp_all add: tasks_inv_apply_op)

lemma tasks_inv_init: "tasks_inv (init_player cfg)"
  by (simp add: tasks_inv_def handles_known_def one_entry_per_key_def init_player_def)

text \<open>The audio files: which functions write the map.\<close>

lemma audio_same: "same_but_timing f p \<Longrightarrow> current_audio_files f = current_audio_files p"
  by (simp add: same_but_timing_def)

lemma audio_cleanup:
  "current_audio_files (cleanup_current_audio p g) = dict_del g (current_audio_files p)"
proof (cases "dict_get (current_audio_files p) g")
  case None
  then have "\<not> dict_in g (current_audio_files p)" by (simp add: dict_in_get)
  then have "dict_del g (current_audio_files p) = current_audio_files p"
    by (simp add: dict_del_def dict_in_def delete_id)
  then show ?thesis using None by (simp add: cleanup_current_audio_def)
next
  case (Some path)
  then show ?thesis by (simp add: cleanup_current_audio_def Let_def)
qed

lemma audio_timers:
  "current_audio_files (stop_inactivity_timer p g) = current_audio_files p"
  "current_audio_files (reset_inactivity_timer p g now) = current_audio_files p"
  "current_audio_files (start_inactivity_timer p g) = current_audio_files p"
  "current_audio_files (inactivity_timer_finally p g) = current_audio_files p"
  by (simp_all add: stop_inactivity_timer_def reset_inactivity_timer_def
      start_inactivity_timer_def inactivity_timer_finally_def cancel_task_def create_task_def
      Let_def split: option.splits)

lemma audio_start_playback:
  "current_audio_files (start_playback p g now) = current_audio_files p"
  by (simp add: start_playback_def Let_def create_task_def audio_timers)

lemma audio_cleanup_guild:
  "current_audio_files (cleanup_guild_state p g) = dict_del g (current_audio_files p)"
  by (simp add: cleanup_guild_state_def Let_def audio_timers audio_cleanup
      audio_same [OF timing_frame(4)] cancel_task_def split: option.splits)

lemma audio_loop_finally:
  "current_audio_files (playback_loop_finally p g) = dict_del g (current_audio_files p)"
  by (simp add: playback_loop_finally_def Let_def audio_cleanup)

lemma dict_del_set: "dict_del k (dict_set k v d) = dict_del k d"
  by (simp add: dict_del_def dict_set_def delete_update_same)

lemma audio_song_ready:
  "current_audio_files (playback_loop_song_ready p g path played now) =
     (case path of
        None \<Rightarrow> current_audio_files p
      | Some f \<Rightarrow>
          if f = [] then current_audio_files p
          else if played then dict_set g f (current_audio_files p)
          else dict_del g (current_audio_files p))"
  by (simp add: playback_loop_song_ready_def Let_def audio_cleanup dict_del_set
      audio_same [OF timing_frame(1)] split: option.splits)

lemma audio_timer_task:
  "current_audio_files (inactivity_timer_task p g outcome c pl) =
     (case outcome of
        SleepCancelled \<Rightarrow> current_audio_files p
      | Woke t \<Rightarrow> if c \<and> \<not> pl then dict_del g (current_audio_files p)
                 else current_audio_files p)"
  by (auto simp: inactivity_timer_task_def Let_def audio_timers audio_cleanup_guild
      split: sleep_outcome.splits)

lemma audio_inv_apply_op:
  "one_entry_per_key (current_audio_files p) \<Longrightarrow>
   one_entry_per_key (current_audio_files (apply_op op p))"
  by (cases op)
    (simp_all add: audio_start_playback audio_timers audio_cleanup audio_cleanup_guild
      audio_same [OF timing_frame(1)] audio_same [OF timing_frame(2)]
      audio_same [OF timing_frame(3)] audio_same [OF timing_frame(4)]
      audio_same [OF timing_frame(5)] audio_loop_finally audio_song_ready audio_timer_task
      playback_loop_no_more_songs_def playback_loop_song_finished_def
      one_entry_set one_entry_del split: option.splits sleep_outcome.splits)

lemma reset_timer_cancels:
  assumes "dict_get (inactivity_timers p) g = Some t"
  shows "t \<in> set (tasks_cancelled (reset_inactivity_timer p g now))"
    "\<not> dict_in g (inactivity_timers (reset_inactivity_timer p g now))"
  using assms by (simp_all add: reset_inactivity_timer_def cancel_task_def Let_def dict_in_del)

lemma start_timer_cancels:
  assumes "dict_get (inactivity_timers p) g = Some t"
  shows "t \<in> set (tasks_cancelled (start_inactivity_timer p g))"
    "dict_get (inactivity_timers (start_inactivity_timer p g)) g = Some (length (tasks_created p))"
  using assms
  by (simp_all add: start_inactivity_timer_def cancel_task_def create_task_def Let_def
      dict_get_set)

lemma start_timer_fresh:
  assumes "tasks_inv p"
  shows "length (tasks_created p) \<notin> set (tasks_cancelled (start_inactivity_timer p g))"
proof -
  have c: "list_all (\<lambda>t. t < length (tasks_created p)) (tasks_cancelled p)"
    and r: "list_all (\<lambda>t. t < length (tasks_created p)) (map snd (inactivity_timers p))"
    using assms by (simp_all add: tasks_inv_def handles_known_def)
  have "length (tasks_created p) \<notin> set (tasks_cancelled p)"
    using c by (auto simp: list_all_iff)
  moreover have "t \<noteq> length (tasks_created p)" if "dict_get (inactivity_timers p) g = Some t" for t
    using la_get [OF r that] by simp
  ultimately show ?thesis
    by (auto simp: start_inactivity_timer_def cancel_task_def create_task_def Let_def
        split: option.splits)
qed

text \<open>
  What holds of the two maps: \<open>_start_playback\<close> on a guild that has an entry in \<open>_playback_tasks\<close> returns
  without creating a task or changing anything; \<open>_reset_inactivity_timer\<close> cancels the
  guild's timer and removes its entry; \<open>_start_inactivity_timer\<close> cancels the guild's timer
  and puts the task it creates in its place, a task that has not been cancelled; and every
  operation keeps \<open>_playback_tasks\<close> and \<open>_inactivity_timers\<close> at no more than one entry
  per guild.
\<close>

lemma maps_one_entry_per_guild:
  "(dict_in g (playback_tasks p) \<longrightarrow> start_playback p g now = p)
   \<and> (\<forall>t. dict_get (inactivity_timers p) g = Some t \<longrightarrow>
         t \<in> set (tasks_cancelled (reset_inactivity_timer p g now))
         \<and> \<not> dict_in g (inactivity_timers (reset_inactivity_timer p g now)))
   \<and> (\<forall>t. dict_get (inactivity_timers p) g = Some t \<longrightarrow>
         t \<in> set (tasks_cancelled (start_inactivity_timer p g))
         \<and> dict_get (inactivity_timers (start_inactivity_timer p g)) g
             = Some (length (tasks_created p)))
   \<and> (tasks_inv p \<longrightarrow>
         length (tasks_created p) \<notin> set (tasks_cancelled (start_inactivity_timer p g))
         \<and> tasks_inv (apply_op op p)
         \<and> entries g (playback_tasks (apply_op op p)) \<le> 1
         \<and> entries g (inactivity_timers (apply_op op p)) \<le> 1)"
proof -
  have 4: "entries g (playback_tasks (apply_op op p)) \<le> 1
         \<and> entries g (inactivity_timers (apply_op op p)) \<le> 1" if "tasks_inv p"
    using tasks_inv_apply_op [OF that, of op]
      entries_le_1 [of "playback_tasks (apply_op op p)" g]
      entries_le_1 [of "inactivity_timers (apply_op op p)" g]
    by (simp add: tasks_inv_def)
  show ?thesis
    using reset_timer_cancels [of p g _ now] start_timer_cancels [of p g] start_timer_fresh [of p g]
      tasks_inv_apply_op [of p op] 4
    by (simp add: start_playback_def)
qed

text \<open>
  C1 holds that the player keeps at most one playback task and at most one inactivity
  timer per guild at a time. The maps hold one entry per guild, but a task can be alive
  without an entry: the \<open>finally\<close> clause of a task deletes the entry of its guild
  whichever task that entry names.

  First sequence, for guild 5: a song is added and loop 0 starts; \<open>stop_playback\<close> cancels
  loop 0 and deletes the entry; before the cancellation reaches loop 0, another
  \<open>add_song_to_queue\<close> starts loop 1; the \<open>finally\<close> clause of loop 0 then deletes the
  entry, which is loop 1's; the next \<open>add_song_to_queue\<close> finds no entry and starts loop 2.
  Loops 1 and 2 are both created, never cancelled and not ended, and only loop 2 is in
  the map.

  Second sequence, continuing the first: loops 1 and 2 both find the queue empty, so loop
  1 starts timer 3 and loop 2 cancels it and starts timer 4; the \<open>finally\<close> clause of the
  cancelled timer 3 deletes the entry, which is timer 4's; a song is added (loop 5) and
  the queue runs empty again, which starts timer 6. Timers 4 and 6 are both created,
  never cancelled and not ended, and only timer 6 is in the map.
\<close>

theorem C1_two_live_tasks_for_one_guild:
  "uncancelled (apply_ops
       [StartPlayback 5 1, CleanupGuildState 5, StartPlayback 5 2, LoopFinally 5,
        StartPlayback 5 3] (init_player None :: unit MusicPlayer))
     = [(1, PlaybackLoop 5), (2, PlaybackLoop 5)]
   \<and> playback_tasks (apply_ops
       [StartPlayback 5 1, CleanupGuildState 5, StartPlayback 5 2, LoopFinally 5,
        StartPlayback 5 3] (init_player None :: unit MusicPlayer))
     = [(5, 2)]
   \<and> uncancelled (apply_ops
       [StartPlayback 5 1, CleanupGuildState 5, StartPlayback 5 2, LoopFinally 5,
        StartPlayback 5 3, LoopNoMoreSongs 5, LoopNoMoreSongs 5,
        TimerTask 5 SleepCancelled True False, StartPlayback 5 4, LoopNoMoreSongs 5]
       (init_player None :: unit MusicPlayer))
     = [(1, PlaybackLoop 5), (2, PlaybackLoop 5), (4, InactivityTimerTask 5 300),
        (5, PlaybackLoop 5), (6, InactivityTimerTask 5 300)]
   \<and> inactivity_timers (apply_ops
       [StartPlayback 5 1, CleanupGuildState 5, StartPlayback 5 2, LoopFinally 5,
        StartPlayback 5 3, LoopNoMoreSongs 5, LoopNoMoreSongs 5,
        TimerTask 5 SleepCancelled True False, StartPlayback 5 4, LoopNoMoreSongs 5]
       (init_player None :: unit MusicPlayer))
     = [(5, 6)]"
  by code_simp

lemma cleanup_audio_effect:
  "\<not> dict_in g (current_audio_files (cleanup_current_audio p g))
   \<and> files_cleaned (cleanup_current_audio p g) =
       files_cleaned p @
         (case dict_get (current_audio_files p) g of
            None \<Rightarrow> []
          | Some path \<Rightarrow> if path \<noteq> [] \<and> \<not> startswith path ''http'' then [path] else [])"
  by (simp add: audio_cleanup dict_in_del) (simp add: cleanup_current_audio_def Let_def
      split: option.splits)

text \<open>
  C5: when a song starts, the playback loop makes its path the entry of the guild in
  \<open>_current_audio_files\<close>; \<open>_cleanup_current_audio\<close> removes the entry and passes the path to
  \<open>cleanup_file\<close> exactly when it is not empty and does not start with \<open>http\<close>; and every
  operation keeps \<open>_current_audio_files\<close> at no more than one entry per guild.
\<close>

theorem C5_one_audio_file_per_guild:
  "(path \<noteq> [] \<longrightarrow>
      dict_get (current_audio_files (playback_loop_song_ready p g (Some path) True now)) g
        = Some path)
   \<and> \<not> dict_in g (current_audio_files (cleanup_current_audio p g))
   \<and> files_cleaned (cleanup_current_audio p g) =
       files_cleaned p @
         (case dict_get (current_audio_files p) g of
            None \<Rightarrow> []
          | Some path \<Rightarrow> if path \<noteq> [] \<and> \<not> startswith path ''http'' then [path] else [])
   \<and> (one_entry_per_key (current_audio_files p) \<longrightarrow>
        one_entry_per_key (current_audio_files (apply_op op p))
        \<and> entries g (current_audio_files (apply_op op p)) \<le> 1)"
  using cleanup_audio_effect [of g p] audio_inv_apply_op [of p op]
    entries_le_1 [of "current_audio_files (apply_op op p)" g]
  by (simp add: audio_song_ready dict_get_set)

theorem C5_one_audio_file_per_guild_witness:
  "current_audio_files (playback_loop_song_ready
      (playback_loop_song_ready (init_player None :: unit MusicPlayer) 5 (Some ''/tmp/a.m4a'') True 1)
      5 (Some ''https://files.catbox.moe/b.mp3'') True 2) = [(5, ''https://files.catbox.moe/b.mp3'')]
   \<and> files_cleaned (cleanup_current_audio
      (playback_loop_song_ready (init_player None :: unit MusicPlayer) 5 (Some ''/tmp/a.m4a'') True 1) 5)
      = [''/tmp/a.m4a'']
   \<and> files_cleaned (cleanup_current_audio
      (playback_loop_song_ready (init_player None :: unit MusicPlayer) 5
         (Some ''https://files.catbox.moe/b.mp3'') True 1) 5) = []
   \<and> current_audio_files (cleanup_current_audio
      (playback_loop_song_ready (init_player None :: unit MusicPlayer) 5 (Some ''/tmp/a.m4a'') True 1) 5)
      = []"
  using C5_one_audio_file_per_guild [of "''https://files.catbox.moe/b.mp3''"
      "playback_loop_song_ready (init_player None :: unit MusicPlayer) 5 (Some ''/tmp/a.m4a'') True 1"
      5 2 "CleanupCurrentAudio 5"]
  by (simp add: playback_loop_song_ready_def cleanup_current_audio_def start_playback_timing_def
      init_player_def dict_in_def dict_get_def dict_set_def dict_del_def Let_def)


section \<open>Properties of the inactivity timer\<close>

text \<open>
  The timer task asks for a disconnect exactly when its sleep ran to its end and the bot
  was then connected and not playing.
\<close>

lemma timer_task_disconnects_iff:
  "voice_disconnects (inactivity_timer_task p g outcome is_connected is_playing) =
     voice_disconnects p @
       (case outcome of
          SleepCancelled \<Rightarrow> []
        | Woke t \<Rightarrow> if is_connected \<and> \<not> is_playing then [g] else [])"
proof -
  have f: "voice_disconnects (inactivity_timer_finally q g) = voice_disconnects q"
    for q :: "'a MusicPlayer"
    by (simp add: inactivity_timer_finally_def)
  have s: "voice_disconnects (stop_inactivity_timer q g) = voice_disconnects q"
    for q :: "'a MusicPlayer"
    by (simp add: stop_inactivity_timer_def cancel_task_def split: option.splits)
  have t: "voice_disconnects (stop_playback_timing q g) = voice_disconnects q"
    for q :: "'a MusicPlayer"
    using timing_frame(4) [of q g] by (simp add: same_but_timing_def)
  have a: "voice_disconnects (cleanup_current_audio q g) = voice_disconnects q"
    for q :: "'a MusicPlayer"
    by (simp add: cleanup_audio_frame)
  have c: "voice_disconnects (cleanup_guild_state p g) = voice_disconnects p"
    by (simp add: cleanup_guild_state_def Let_def s t a cancel_task_def split: option.splits)
  show ?thesis
    by (simp add: inactivity_timer_task_def Let_def f c split: sleep_outcome.splits)
qed

text \<open>
  C7 holds that any activity cancels and removes the pending timer of the guild, so that
  the auto-disconnect never fires during activity. Activity cancels the timer that the map
  names, and a pending timer can be out of the map: here timer 4 lost its entry to the
  \<open>finally\<close> clause of the cancelled timer 3 (the sequence of the two live timers above,
  with timer 4 started at time 210). A song is then added at time 500, which finds no
  timer to cancel; it plays from 501 and ends; at 510, its 300 seconds over, timer 4 finds
  the bot connected and not playing (the next song is being fetched) and disconnects it.
\<close>

theorem C7_orphaned_timer_disconnects_after_activity:
  "inactivity_timers (apply_ops
       [StartPlayback 5 1, CleanupGuildState 5, StartPlayback 5 2, LoopFinally 5,
        StartPlayback 5 3, LoopNoMoreSongs 5, LoopNoMoreSongs 5,
        TimerTask 5 SleepCancelled True False]
       (init_player None :: unit MusicPlayer)) = []
   \<and> uncancelled (apply_ops
       [StartPlayback 5 1, CleanupGuildState 5, StartPlayback 5 2, LoopFinally 5,
        StartPlayback 5 3, LoopNoMoreSongs 5, LoopNoMoreSongs 5,
        TimerTask 5 SleepCancelled True False,
        StartPlayback 5 500, LoopSongReady 5 (Some ''/tmp/a.m4a'') True 501, LoopSongFinished 5]
       (init_player None :: unit MusicPlayer))
     = [(1, PlaybackLoop 5), (2, PlaybackLoop 5), (4, InactivityTimerTask 5 300),
        (5, PlaybackLoop 5)]
   \<and> sleep_contract 210 300 (Woke 510)
   \<and> voice_disconnects (apply_ops
       [StartPlayback 5 1, CleanupGuildState 5, StartPlayback 5 2, LoopFinally 5,
        StartPlayback 5 3, LoopNoMoreSongs 5, LoopNoMoreSongs 5,
        TimerTask 5 SleepCancelled True False,
        StartPlayback 5 500, LoopSongReady 5 (Some ''/tmp/a.m4a'') True 501, LoopSongFinished 5,
        TimerTask 5 (Woke 510) True False]
       (init_player None :: unit MusicPlayer)) = [5]"
  by code_simp


section \<open>Properties of \<open>add_song_to_queue\<close>\<close>

lemma unsupported_not_failed:
  "unsupported_url_message \<noteq> ''Failed to extract audio information from URL''"
  "unsupported_url_message \<noteq> ''Error adding song to queue: '' @ m"
  by (simp_all add: unsupported_url_message_def)

lemma seq_Inr:
  "fst (seq m f p) = Inr r \<longleftrightarrow> (\<exists>x p'. m p = (Inr x, p') \<and> fst (f x p') = Inr r)"
  by (auto simp: seq_def split: prod.splits sum.splits)

lemma add_song_of_source_result:
  assumes "fst (add_song_of_source w st url g now p) = Inr r"
  shows "r = (False, None, Some ''Failed to extract audio information from URL'')
         \<or> (\<exists>position. r = (True, Some position, None))"
  using assms unfolding add_song_of_source_def
  by (auto simp: seq_Inr ret_def upd_def call_def split: option.splits if_splits)

lemma add_song_supported:
  assumes "detect_audio_source_type (urlparse w) url = Some st"
  shows "fst (add_song_to_queue w url g now p) \<noteq> Inr (False, None, Some unsupported_url_message)"
proof
  assume h: "fst (add_song_to_queue w url g now p) = Inr (False, None, Some unsupported_url_message)"
  obtain out p' where b: "add_song_of_source w st url g now p = (out, p')"
    by (cases "add_song_of_source w st url g now p")
  show False
  proof (cases out)
    case (Inl e)
    then show ?thesis
      using h b assms unsupported_not_failed(2) [of "exn_str e"]
      by (simp add: add_song_to_queue_def try_except_Exception_def ret_def split: if_splits)
  next
    case (Inr r)
    then have "r = (False, None, Some unsupported_url_message)"
      using h b assms by (simp add: add_song_to_queue_def try_except_Exception_def)
    moreover have "fst (add_song_of_source w st url g now p) = Inr r" using b Inr by simp
    ultimately show ?thesis
      using add_song_of_source_result [of w st url g now p r] unsupported_not_failed(1) by auto
  qed
qed

text \<open>
  C6: for a URL that neither \<open>is_youtube_url\<close> nor \<open>is_catbox_url\<close> accepts,
  \<open>detect_audio_source_type\<close> returns \<open>None\<close> and \<open>add_song_to_queue\<close> returns
  \<open>(False, None, message)\<close> with the message of the unsupported format and leaves the
  player, its queues included, as it was; for a URL that one of them accepts, a source type
  is found, \<open>add_song_to_queue\<close> goes on with the extraction for that type, and whatever
  it returns is not the answer of the unsupported format.
\<close>

theorem C6_only_youtube_and_catbox_queued:
  "(\<not> is_youtube_url url \<and> \<not> is_catbox_url (urlparse w) url \<longrightarrow>
      detect_audio_source_type (urlparse w) url = None
      \<and> add_song_to_queue w url g now p
          = (Inr (False, None, Some unsupported_url_message), p))
   \<and> (is_youtube_url url \<or> is_catbox_url (urlparse w) url \<longrightarrow>
      (\<exists>source_type. detect_audio_source_type (urlparse w) url = Some source_type
         \<and> add_song_to_queue w url g now p
             = try_except_Exception (add_song_of_source w source_type url g now)
                 (\<lambda>e. ret (False, None, Some (''Error adding song to queue: '' @ exn_str e))) p)
      \<and> fst (add_song_to_queue w url g now p)
          \<noteq> Inr (False, None, Some unsupported_url_message))"
proof -
  have 1: "detect_audio_source_type (urlparse w) url = None
      \<and> add_song_to_queue w url g now p
          = (Inr (False, None, Some unsupported_url_message), p)"
    if "\<not> is_youtube_url url \<and> \<not> is_catbox_url (urlparse w) url"
    using that
    by (simp add: detect_audio_source_type_def add_song_to_queue_def try_except_Exception_def
        ret_def)
  have 2: "(\<exists>source_type. detect_audio_source_type (urlparse w) url = Some source_type
         \<and> add_song_to_queue w url g now p
             = try_except_Exception (add_song_of_source w source_type url g now)
                 (\<lambda>e. ret (False, None, Some (''Error adding song to queue: '' @ exn_str e))) p)
      \<and> fst (add_song_to_queue w url g now p)
          \<noteq> Inr (False, None, Some unsupported_url_message)"
    if s: "is_youtube_url url \<or> is_catbox_url (urlparse w) url"
  proof -
    obtain st where st: "detect_audio_source_type (urlparse w) url = Some st"
      using s by (cases "is_youtube_url url") (simp_all add: detect_audio_source_type_def)
    have "add_song_to_queue w url g now p
             = try_except_Exception (add_song_of_source w st url g now)
                 (\<lambda>e. ret (False, None, Some (''Error adding song to queue: '' @ exn_str e))) p"
      by (simp add: add_song_to_queue_def st try_except_Exception_def)
    then show ?thesis using st add_song_supported [OF st, of g now p] by blast
  qed
  show ?thesis using 1 2 by blast
qed


theorem C6_only_youtube_and_catbox_queued_witness:
  "add_song_to_queue example_collaborators ''ftp://example.org/a.mp3'' 5 10 (init_player None)
      = (Inr (False, None, Some unsupported_url_message), init_player None)
   \<and> fst (add_song_to_queue example_collaborators ''https://youtu.be/abc'' 5 10 (init_player None))
      = Inr (True, Some 1, None)
   \<and> fst (add_song_to_queue example_collaborators ''https://youtu.be/abc'' 5 10 (init_player None))
      \<noteq> Inr (False, None, Some unsupported_url_message)"
proof -
  have a: "\<not> is_youtube_url ''ftp://example.org/a.mp3''
      \<and> \<not> is_catbox_url (urlparse example_collaborators) ''ftp://example.org/a.mp3''"
    by code_simp
  have b: "is_youtube_url ''https://youtu.be/abc''"
    by code_simp
  have c: "fst (add_song_to_queue example_collaborators ''https://youtu.be/abc'' 5 10
      (init_player None)) = Inr (True, Some 1, None)"
    by code_simp
  show ?thesis
    using C6_only_youtube_and_catbox_queued [of "''ftp://example.org/a.mp3''" example_collaborators 5 10 "init_player None"]
      C6_only_youtube_and_catbox_queued [of "''https://youtu.be/abc''" example_collaborators 5 10 "init_player None"]
      a b c
    by simp
qed

end
